theory Spec2Isabelle
  imports Complex_Main
begin

section \<open>Values on the wire\<close>

text \<open>
  A response body is a JSON value; an object keeps its fields in the order the handler
  writes them. A response is the status passed to \<^verbatim>\<open>res.status\<close> and the body passed to
  \<^verbatim>\<open>send\<close> or \<^verbatim>\<open>json\<close>.
\<close>

datatype json =
    JNull
  | JBool bool
  | JNum int
  | JStr string
  | JArr "json list"
  | JObj "(string \<times> json) list"

record response =
  status :: nat
  body :: json

definition send :: "nat \<Rightarrow> json \<Rightarrow> response" where
  "send code payload = \<lparr>status = code, body = payload\<rparr>"

text \<open>A field named \<open>k\<close> occurs somewhere in the value, at any depth.\<close>

fun has_field :: "string \<Rightarrow> json \<Rightarrow> bool" where
  "has_field k (JArr xs) = list_ex (has_field k) xs"
| "has_field k (JObj kvs) = list_ex (\<lambda>kv. fst kv = k \<or> has_field k (snd kv)) kvs"
| "has_field k _ = False"

text \<open>
  What a \<^verbatim>\<open>throw\<close> or a rejected library call carries: the error's class and its message.
  The messages of library errors stand for the library's own text.
\<close>

datatype js_error =
    TypeError string
  | Error string
  | CastError string
  | ValidationError string
  | MongoServerError string
  | JsonWebTokenError string

fun message :: "js_error \<Rightarrow> string" where
  "message (TypeError m) = m"
| "message (Error m) = m"
| "message (CastError m) = m"
| "message (ValidationError m) = m"
| "message (MongoServerError m) = m"
| "message (JsonWebTokenError m) = m"

text \<open>The catch branch the post and comment handlers share.\<close>

definition server_error :: "js_error \<Rightarrow> response" where
  "server_error e = send 500 (JObj [(''Server Error'', JStr (message e))])"

definition msg :: "string \<Rightarrow> json" where
  "msg m = JObj [(''msg'', JStr m)]"

definition success :: "string \<Rightarrow> json" where
  "success m = JObj [(''success'', JBool True), (''message'', JStr m)]"


section \<open>Identities\<close>

text \<open>
  An identity is an ObjectId, kept as the string \<^verbatim>\<open>toString\<close> gives: 24 lower-case
  hexadecimal digits. The caller's identity \<^verbatim>\<open>req.user.id\<close> is the id that login signed
  into the token, in this form. A path parameter is any string; the document store casts
  it before a lookup by id, and the cast fails on anything but 24 hexadecimal digits.
\<close>

type_synonym oid = string

definition isHex :: "char \<Rightarrow> bool" where
  "isHex c = (c \<in> set ''0123456789abcdefABCDEF'')"

definition lowerHex :: "char \<Rightarrow> char" where
  "lowerHex c =
     (if c = CHR ''A'' then CHR ''a'' else if c = CHR ''B'' then CHR ''b''
      else if c = CHR ''C'' then CHR ''c'' else if c = CHR ''D'' then CHR ''d''
      else if c = CHR ''E'' then CHR ''e'' else if c = CHR ''F'' then CHR ''f'' else c)"

definition castObjectId :: "string \<Rightarrow> oid option" where
  "castObjectId s =
     (if length s = 24 \<and> list_all isHex s then Some (map lowerHex s) else None)"


section \<open>Documents and collections (models/*.js)\<close>

record user =
  user_id :: oid
  username :: string
  email :: string
  password :: string
  bio :: string
  profilePicture :: string
  user_createdAt :: nat

record post =
  post_id :: oid
  post_user :: oid
  stockSymbol :: string
  title :: string
  description :: string
  tags :: "string list"
  comments :: "oid list"
  likes :: "oid list"
  post_createdAt :: nat
  post_v :: nat

record comment =
  comment_id :: oid
  comment_user :: oid
  comment_post :: oid
  content :: string
  comment_createdAt :: nat

text \<open>
  The persisted state: one collection per model, each in insertion order (the store's
  natural order).
\<close>

record db =
  User_Model :: "user list"
  Post_Model :: "post list"
  Comment_Model :: "comment list"

definition empty_db :: db where
  "empty_db = \<lparr>User_Model = [], Post_Model = [], Comment_Model = []\<rparr>"

text \<open>
  \<^verbatim>\<open>Model.findById(param)\<close>: the cast of the parameter throws a CastError; otherwise the
  document with that id, or null.
\<close>

definition findById :: "('a \<Rightarrow> oid) \<Rightarrow> string \<Rightarrow> 'a list \<Rightarrow> js_error + 'a option" where
  "findById key param coll =
     (case castObjectId param of
        None \<Rightarrow> Inl (CastError ''Cast to ObjectId failed'')
      | Some i \<Rightarrow> Inr (find (\<lambda>d. key d = i) coll))"

text \<open>\<^verbatim>\<open>Model.findByIdAndDelete(param)\<close>, after the same cast.\<close>

definition findByIdAndDelete :: "('a \<Rightarrow> oid) \<Rightarrow> string \<Rightarrow> 'a list \<Rightarrow> js_error + 'a list" where
  "findByIdAndDelete key param coll =
     (case castObjectId param of
        None \<Rightarrow> Inl (CastError ''Cast to ObjectId failed'')
      | Some i \<Rightarrow> Inr (filter (\<lambda>d. key d \<noteq> i) coll))"


section \<open>The auth gate (middleware/authMiddle.js and its revision)\<close>

text \<open>
  \<^verbatim>\<open>str.split(sep)\<close> for a one-character separator, and \<^verbatim>\<open>arr[i]\<close>, which is undefined
  (\<open>None\<close>) out of range.
\<close>

fun js_split :: "char \<Rightarrow> string \<Rightarrow> string list" where
  "js_split c [] = [[]]"
| "js_split c (x # xs) =
     (if x = c then [] # js_split c xs
      else (case js_split c xs of w # ws \<Rightarrow> (x # w) # ws | [] \<Rightarrow> [[x]]))"

definition at_index :: "'a list \<Rightarrow> nat \<Rightarrow> 'a option" where
  "at_index xs i = (if i < length xs then Some (xs ! i) else None)"

text \<open>
  \<^verbatim>\<open>jwt.verify(token, secret)\<close>. The check of signature and expiry against the server's
  secret is the parameter \<open>check\<close>: it gives the id that login signed into the token,
  or nothing. A token that is undefined or empty is refused before any check.
\<close>

definition jwt_verify :: "(string \<Rightarrow> oid option) \<Rightarrow> string option \<Rightarrow> js_error + oid" where
  "jwt_verify check token =
     (case token of
        None \<Rightarrow> Inl (JsonWebTokenError ''jwt must be provided'')
      | Some t \<Rightarrow>
          if t = [] then Inl (JsonWebTokenError ''jwt must be provided'')
          else (case check t of
                  None \<Rightarrow> Inl (JsonWebTokenError ''invalid token'')
                | Some i \<Rightarrow> Inr i))"

text \<open>
  What a middleware call leaves behind: a response it sent, a call of \<^verbatim>\<open>next()\<close> with
  the verified identity in \<^verbatim>\<open>req.user\<close>, or an error thrown out of the async function
  (a rejected promise: the middleware has sent nothing and has not called next).
\<close>

datatype gate = Responded response | Next oid | Rejected js_error

text \<open>
  middleware/authMiddle.js. The argument is \<^verbatim>\<open>req.headers.authorization\<close>; the optional
  chaining stops at \<^verbatim>\<open>headers\<close>, so \<^verbatim>\<open>split\<close> is called on undefined when the header
  is absent.
\<close>

definition authenticator :: "(string \<Rightarrow> oid option) \<Rightarrow> string option \<Rightarrow> gate" where
  "authenticator check authorization =
     (case authorization of
        None \<Rightarrow> Rejected (TypeError ''Cannot read properties of undefined'')
      | Some h \<Rightarrow>
          (let token = at_index (js_split (CHR '' '') h) 1 in
           if token = None \<or> token = Some []
           then Rejected (Error ''Not authorized to access this resource'')
           else (case jwt_verify check token of
                   Inr u \<Rightarrow> Next u
                 | Inl e \<Rightarrow> Responded (send 401 (msg ''Token is not valid'')))))"

text \<open>
  The revision of the middleware (src/unnamed/part_006): the header is tested first, and
  an absent or empty header is answered with 401.
\<close>

definition authenticator_rev :: "(string \<Rightarrow> oid option) \<Rightarrow> string option \<Rightarrow> gate" where
  "authenticator_rev check authorization =
     (if authorization = None \<or> authorization = Some []
      then Responded (send 401 (msg ''No token, authorization denied''))
      else (case jwt_verify check (at_index (js_split (CHR '' '') (the authorization)) 1) of
              Inr u \<Rightarrow> Next u
            | Inl e \<Rightarrow> Responded (send 401 (msg ''Token is not valid''))))"

text \<open>
  A protected route \<^verbatim>\<open>router.method(path, authenticator, handler)\<close>: the handler runs
  only after \<^verbatim>\<open>next()\<close>. The result is the response that the middleware or the handler
  sent, if either sent one, and the state.
\<close>

definition protected :: "gate \<Rightarrow> (oid \<Rightarrow> db \<Rightarrow> response \<times> db) \<Rightarrow> db \<Rightarrow> response option \<times> db" where
  "protected g handler d =
     (case g of
        Responded r \<Rightarrow> (Some r, d)
      | Rejected e \<Rightarrow> (None, d)
      | Next u \<Rightarrow> (case handler u d of (r, d') \<Rightarrow> (Some r, d')))"


section \<open>The post store (routes/posts.js and its revision)\<close>

text \<open>
  The handlers of routes/posts.js; src/routes/comments.js holds a second copy of the
  router whose create, getById, delete, like and unlike handlers are the same and whose
  list handler paginates. A handler behind the gate takes the caller's identity
  \<^verbatim>\<open>req.user.id\<close>; every handler answers, so it returns the response and the state.
\<close>

text \<open>A required String path of a schema: undefined and the empty string fail validation.\<close>

definition required :: "string option \<Rightarrow> bool" where
  "required v = (v \<noteq> None \<and> v \<noteq> Some [])"

text \<open>
  \<^verbatim>\<open>doc.save()\<close> of a loaded post whose likes or comments were changed: the stored
  document with that id is replaced, and its version key \<^verbatim>\<open>__v\<close> (\<open>post_v\<close>) goes up
  by one, as it does on every saved change of an array path.
\<close>

definition save_post :: "post \<Rightarrow> db \<Rightarrow> db" where
  "save_post p d =
     d\<lparr>Post_Model := map (\<lambda>q. if post_id q = post_id p then p\<lparr>post_v := post_v p + 1\<rparr> else q)
                          (Post_Model d)\<rparr>"

record post_body =
  b_stockSymbol :: "string option"
  b_title :: "string option"
  b_description :: "string option"
  b_tags :: "string list option"

text \<open>
  POST /. \<open>newId\<close> is the ObjectId the driver generates and \<open>now\<close> the clock; validation
  and the insert happen in \<^verbatim>\<open>newPost.save()\<close>, inside the try block.
\<close>

definition post_create :: "oid \<Rightarrow> nat \<Rightarrow> post_body \<Rightarrow> oid \<Rightarrow> db \<Rightarrow> response \<times> db" where
  "post_create newId now b caller d =
     (if required (b_stockSymbol b) \<and> required (b_title b) \<and> required (b_description b)
      then
        (if newId \<in> set (map post_id (Post_Model d))
         then (server_error (MongoServerError ''E11000 duplicate key error''), d)
         else
           (send 200 (JObj [(''success'', JBool True), (''postId'', JStr newId),
                            (''message'', JStr ''Post created successfully'')]),
            d\<lparr>Post_Model := Post_Model d @
               [\<lparr>post_id = newId, post_user = caller,
                 stockSymbol = the (b_stockSymbol b), title = the (b_title b),
                 description = the (b_description b),
                 tags = (case b_tags b of None \<Rightarrow> [] | Some ts \<Rightarrow> ts),
                 comments = [], likes = [], post_createdAt = now, post_v = 0\<rparr>]\<rparr>))
      else (server_error (ValidationError ''Post validation failed''), d))"

text \<open>
  The query string of GET /. \<^verbatim>\<open>page\<close> and \<^verbatim>\<open>limit\<close> are taken as the integers
  \<^verbatim>\<open>parseInt\<close> reads from them, absent when the parameter is absent.
\<close>

record list_query =
  q_stockSymbol :: "string option"
  q_tags :: "string option"
  q_sortBy :: "string option"
  q_page :: "int option"
  q_limit :: "int option"

definition truthy :: "string option \<Rightarrow> bool" where
  "truthy v = (v \<noteq> None \<and> v \<noteq> Some [])"

text \<open>The filter: an exact stock symbol, and a tag among the comma-separated ones.\<close>

definition matches :: "list_query \<Rightarrow> post \<Rightarrow> bool" where
  "matches q p =
     ((if truthy (q_stockSymbol q) then stockSymbol p = the (q_stockSymbol q) else True) \<and>
      (if truthy (q_tags q)
       then list_ex (\<lambda>t. t \<in> set (tags p)) (js_split (CHR '','') (the (q_tags q)))
       else True))"

datatype sort_spec = Natural | CreatedAtDesc | LikesDesc

definition sort_of :: "string option \<Rightarrow> sort_spec" where
  "sort_of sortBy =
     (if sortBy = Some ''date'' then CreatedAtDesc
      else if sortBy = Some ''likes'' then LikesDesc else Natural)"

text \<open>The projection \<^verbatim>\<open>select("stockSymbol title description likes createdAt")\<close>.\<close>

definition selected :: "post \<Rightarrow> json" where
  "selected p =
     JObj [(''_id'', JStr (post_id p)), (''stockSymbol'', JStr (stockSymbol p)),
           (''title'', JStr (title p)), (''description'', JStr (description p)),
           (''likes'', JArr (map JStr (likes p))), (''createdAt'', JNum (int (post_createdAt p)))]"

text \<open>
  GET / of routes/posts.js: no pagination. The ordering the store applies for a sort
  specification is the parameter \<open>order\<close>.
\<close>

definition post_list :: "(sort_spec \<Rightarrow> post list \<Rightarrow> post list) \<Rightarrow> list_query \<Rightarrow> db \<Rightarrow> response" where
  "post_list order q d =
     send 200 (JObj [(''posts'',
        JArr (map selected (order (sort_of (q_sortBy q)) (filter (matches q) (Post_Model d)))))])"

text \<open>
  \<^verbatim>\<open>find(query).sort(sort).limit(l).skip(s)\<close>: the store skips first and then limits;
  it rejects a negative skip, reads a limit of 0 as no limit and a negative limit as its
  absolute value.
\<close>

definition paged :: "int \<Rightarrow> int \<Rightarrow> 'a list \<Rightarrow> js_error + 'a list" where
  "paged limitNumber skip xs =
     (if skip < 0 then Inl (MongoServerError ''Skip value must be non-negative'')
      else Inr (if limitNumber = 0 then drop (nat skip) xs
                else take (nat \<bar>limitNumber\<bar>) (drop (nat skip) xs)))"

text \<open>\<^verbatim>\<open>Math.ceil(a / b)\<close> for a count \<open>a\<close>; JSON writes Infinity and NaN as null.\<close>

datatype jsnum = Finite int | Infinity | NaN

definition ceil_div :: "nat \<Rightarrow> int \<Rightarrow> jsnum" where
  "ceil_div a b =
     (if b = 0 then (if a = 0 then NaN else Infinity)
      else Finite (- ((- int a) div b)))"

fun jsnum_json :: "jsnum \<Rightarrow> json" where
  "jsnum_json (Finite n) = JNum n"
| "jsnum_json Infinity = JNull"
| "jsnum_json NaN = JNull"

definition likesCount :: "post \<Rightarrow> nat" where
  "likesCount p = length (likes p)"

definition formatted :: "post \<Rightarrow> json" where
  "formatted p =
     JObj [(''postId'', JStr (post_id p)), (''stockSymbol'', JStr (stockSymbol p)),
           (''title'', JStr (title p)), (''description'', JStr (description p)),
           (''likesCount'', JNum (int (likesCount p))),
           (''createdAt'', JNum (int (post_createdAt p)))]"

text \<open>GET / of the revision in src/routes/comments.js: pagination and its metadata.\<close>

definition post_list_paginated ::
  "(sort_spec \<Rightarrow> post list \<Rightarrow> post list) \<Rightarrow> list_query \<Rightarrow> db \<Rightarrow> response" where
  "post_list_paginated order q d =
     (let pageNumber = (case q_page q of None \<Rightarrow> 1 | Some n \<Rightarrow> n);
          limitNumber = (case q_limit q of None \<Rightarrow> 10 | Some n \<Rightarrow> n);
          skip = (pageNumber - 1) * limitNumber;
          totalPosts = length (filter (matches q) (Post_Model d))
      in case paged limitNumber skip
                (order (sort_of (q_sortBy q)) (filter (matches q) (Post_Model d))) of
           Inl e \<Rightarrow> server_error e
         | Inr ps \<Rightarrow>
             send 200 (JObj [(''pagination'',
                               JObj [(''currentPage'', JNum pageNumber),
                                     (''totalPages'', jsnum_json (ceil_div totalPosts limitNumber)),
                                     (''totalPosts'', JNum (int totalPosts))]),
                             (''posts'', JArr (map formatted ps))]))"

text \<open>
  The join of GET /:postId: \<^verbatim>\<open>populate('user', 'username')\<close> gives null for a user that
  no longer exists; the populated comment list drops the ids that resolve to no comment.
\<close>

definition populate_user :: "db \<Rightarrow> oid \<Rightarrow> json" where
  "populate_user d i =
     (case find (\<lambda>u. user_id u = i) (User_Model d) of
        None \<Rightarrow> JNull
      | Some u \<Rightarrow> JObj [(''_id'', JStr (user_id u)), (''username'', JStr (username u))])"

definition comment_json :: "db \<Rightarrow> comment \<Rightarrow> json" where
  "comment_json d c =
     JObj [(''_id'', JStr (comment_id c)), (''user'', populate_user d (comment_user c)),
           (''post'', JStr (comment_post c)), (''content'', JStr (content c)),
           (''createdAt'', JNum (int (comment_createdAt c))), (''__v'', JNum 0)]"

definition populate_comments :: "db \<Rightarrow> oid list \<Rightarrow> json list" where
  "populate_comments d ids =
     map (comment_json d)
       (List.map_filter (\<lambda>i. find (\<lambda>c. comment_id c = i) (Comment_Model d)) ids)"

definition post_json :: "db \<Rightarrow> post \<Rightarrow> json" where
  "post_json d p =
     JObj [(''_id'', JStr (post_id p)), (''user'', populate_user d (post_user p)),
           (''stockSymbol'', JStr (stockSymbol p)), (''title'', JStr (title p)),
           (''description'', JStr (description p)), (''tags'', JArr (map JStr (tags p))),
           (''comments'', JArr (populate_comments d (comments p))),
           (''likes'', JArr (map JStr (likes p))),
           (''createdAt'', JNum (int (post_createdAt p))), (''__v'', JNum (int (post_v p)))]"

definition post_getById :: "string \<Rightarrow> db \<Rightarrow> response" where
  "post_getById postId d =
     (case findById post_id postId (Post_Model d) of
        Inl e \<Rightarrow> server_error e
      | Inr None \<Rightarrow> send 404 (msg ''Post not found'')
      | Inr (Some p) \<Rightarrow> send 200 (post_json d p))"

definition post_delete :: "string \<Rightarrow> oid \<Rightarrow> db \<Rightarrow> response \<times> db" where
  "post_delete postId caller d =
     (case findById post_id postId (Post_Model d) of
        Inl e \<Rightarrow> (server_error e, d)
      | Inr None \<Rightarrow> (send 404 (msg ''Post not found''), d)
      | Inr (Some p) \<Rightarrow>
          if post_user p \<noteq> caller then (send 401 (msg ''User not authorized''), d)
          else (case findByIdAndDelete post_id postId (Post_Model d) of
                  Inl e \<Rightarrow> (server_error e, d)
                | Inr ps \<Rightarrow>
                    (send 200 (success ''Post deleted successfully''), d\<lparr>Post_Model := ps\<rparr>)))"

definition post_like :: "string \<Rightarrow> oid \<Rightarrow> db \<Rightarrow> response \<times> db" where
  "post_like postId caller d =
     (case findById post_id postId (Post_Model d) of
        Inl e \<Rightarrow> (server_error e, d)
      | Inr None \<Rightarrow> (send 404 (msg ''Post not found''), d)
      | Inr (Some p) \<Rightarrow>
          if caller \<in> set (likes p) then (send 400 (msg ''Post already liked''), d)
          else (send 200 (success ''Post liked''),
                save_post (p\<lparr>likes := caller # likes p\<rparr>) d))"

definition post_unlike :: "string \<Rightarrow> oid \<Rightarrow> db \<Rightarrow> response \<times> db" where
  "post_unlike postId caller d =
     (case findById post_id postId (Post_Model d) of
        Inl e \<Rightarrow> (server_error e, d)
      | Inr None \<Rightarrow> (send 404 (msg ''Post not found''), d)
      | Inr (Some p) \<Rightarrow>
          if caller \<notin> set (likes p) then (send 400 (msg ''Post has not yet been liked''), d)
          else (send 200 (success ''Post unliked''),
                save_post (p\<lparr>likes := filter (\<lambda>like. like \<noteq> caller) (likes p)\<rparr>) d))"


section \<open>The comment store (routes/comments.js and its revision)\<close>

text \<open>
  POST /:postId/comments of routes/comments.js. \<open>commentText\<close> is \<^verbatim>\<open>req.body.comment\<close>; the
  comment's \<^verbatim>\<open>post\<close> is the cast path parameter, which is the id of the post found.
\<close>

definition comment_add ::
  "oid \<Rightarrow> nat \<Rightarrow> string \<Rightarrow> string option \<Rightarrow> oid \<Rightarrow> db \<Rightarrow> response \<times> db" where
  "comment_add newId now postId commentText caller d =
     (case findById post_id postId (Post_Model d) of
        Inl e \<Rightarrow> (server_error e, d)
      | Inr None \<Rightarrow> (send 404 (msg ''Post not found''), d)
      | Inr (Some p) \<Rightarrow>
          if required commentText
          then
            (if newId \<in> set (map comment_id (Comment_Model d))
             then (server_error (MongoServerError ''E11000 duplicate key error''), d)
             else
               (send 200 (JObj [(''success'', JBool True), (''commentId'', JStr newId),
                                (''message'', JStr ''Comment added successfully'')]),
                d\<lparr>Comment_Model := Comment_Model d @
                   [\<lparr>comment_id = newId, comment_user = caller, comment_post = post_id p,
                     content = the commentText, comment_createdAt = now\<rparr>]\<rparr>))
          else (server_error (ValidationError ''Comment validation failed''), d))"

text \<open>
  The revision (src/unnamed/part_002): after the comment is saved, its id is pushed to
  the post's comment list and the post is saved.
\<close>

definition comment_add_rev ::
  "oid \<Rightarrow> nat \<Rightarrow> string \<Rightarrow> string option \<Rightarrow> oid \<Rightarrow> db \<Rightarrow> response \<times> db" where
  "comment_add_rev newId now postId commentText caller d =
     (case findById post_id postId (Post_Model d) of
        Inl e \<Rightarrow> (server_error e, d)
      | Inr None \<Rightarrow> (send 404 (msg ''Post not found''), d)
      | Inr (Some p) \<Rightarrow>
          if required commentText
          then
            (if newId \<in> set (map comment_id (Comment_Model d))
             then (server_error (MongoServerError ''E11000 duplicate key error''), d)
             else
               (send 200 (JObj [(''success'', JBool True), (''commentId'', JStr newId),
                                (''message'', JStr ''Comment added successfully'')]),
                save_post (p\<lparr>comments := comments p @ [newId]\<rparr>)
                  (d\<lparr>Comment_Model := Comment_Model d @
                     [\<lparr>comment_id = newId, comment_user = caller, comment_post = post_id p,
                       content = the commentText, comment_createdAt = now\<rparr>]\<rparr>)))
          else (server_error (ValidationError ''Comment validation failed''), d))"

text \<open>
  DELETE /:postId/comments/:commentId. The two revisions differ in the text of the 401
  message only, the parameter \<open>denied\<close>.
\<close>

definition comment_delete_with :: "string \<Rightarrow> string \<Rightarrow> oid \<Rightarrow> db \<Rightarrow> response \<times> db" where
  "comment_delete_with denied commentId caller d =
     (case findById comment_id commentId (Comment_Model d) of
        Inl e \<Rightarrow> (send 500 (JStr ''Server Error''), d)
      | Inr None \<Rightarrow> (send 404 (msg ''Comment not found''), d)
      | Inr (Some c) \<Rightarrow>
          if comment_user c \<noteq> caller then (send 401 (msg denied), d)
          else (case findByIdAndDelete comment_id commentId (Comment_Model d) of
                  Inl e \<Rightarrow> (send 500 (JStr ''Server Error''), d)
                | Inr cs \<Rightarrow>
                    (send 200 (success ''Comment deleted successfully''),
                     d\<lparr>Comment_Model := cs\<rparr>)))"

definition comment_delete :: "string \<Rightarrow> oid \<Rightarrow> db \<Rightarrow> response \<times> db" where
  "comment_delete = comment_delete_with ''User not authorized''"

definition comment_delete_rev :: "string \<Rightarrow> oid \<Rightarrow> db \<Rightarrow> response \<times> db" where
  "comment_delete_rev = comment_delete_with ''User not authorized to delete the comment''"


section \<open>Registration, login and profiles (routes/auth.js, routes/users.js and revisions)\<close>

record register_body =
  r_username :: "string option"
  r_email :: "string option"
  r_password :: "string option"

text \<open>A user document as \<^verbatim>\<open>send\<close> serialises it: every stored path.\<close>

definition user_json :: "user \<Rightarrow> json" where
  "user_json u =
     JObj [(''username'', JStr (username u)), (''email'', JStr (email u)),
           (''password'', JStr (password u)), (''bio'', JStr (bio u)),
           (''profilePicture'', JStr (profilePicture u)), (''_id'', JStr (user_id u)),
           (''createdAt'', JNum (int (user_createdAt u))), (''__v'', JNum 0)]"

text \<open>
  POST /register. \<open>hash\<close> is \<^verbatim>\<open>bcrypt.hash\<close> and \<open>salt\<close> the generated salt;
  \<^verbatim>\<open>bcrypt.hash\<close> throws on an undefined password. \<^verbatim>\<open>user.save()\<close> validates the required
  paths and the store enforces the unique indexes. The revisions differ in the success
  response only, the parameter \<open>created\<close>.
\<close>

definition register_with ::
  "(user \<Rightarrow> response) \<Rightarrow> (string \<Rightarrow> string \<Rightarrow> string) \<Rightarrow> string \<Rightarrow> oid \<Rightarrow> nat \<Rightarrow>
   register_body \<Rightarrow> db \<Rightarrow> response \<times> db" where
  "register_with created hash salt newId now b d =
     (let failed = send 500 (JObj [(''success'', JBool False),
                                   (''message'', JStr ''Error registering user'')])
      in case find (\<lambda>u. Some (email u) = r_email b) (User_Model d) of
           Some u \<Rightarrow> (send 400 (msg ''User already exists, Please Login''), d)
         | None \<Rightarrow>
             (case r_password b of
                None \<Rightarrow> (failed, d)
              | Some pw \<Rightarrow>
                  if required (r_username b) \<and> required (r_email b) \<and> hash pw salt \<noteq> []
                     \<and> newId \<notin> set (map user_id (User_Model d))
                     \<and> the (r_username b) \<notin> set (map username (User_Model d))
                     \<and> the (r_email b) \<notin> set (map email (User_Model d))
                  then
                    (let u = \<lparr>user_id = newId, username = the (r_username b),
                               email = the (r_email b), password = hash pw salt,
                               bio = [], profilePicture = [], user_createdAt = now\<rparr>
                     in (created u, d\<lparr>User_Model := User_Model d @ [u]\<rparr>))
                  else (failed, d)))"

text \<open>routes/auth.js (and src/unnamed/part_003): the saved document is echoed.\<close>

definition register ::
  "(string \<Rightarrow> string \<Rightarrow> string) \<Rightarrow> string \<Rightarrow> oid \<Rightarrow> nat \<Rightarrow> register_body \<Rightarrow> db \<Rightarrow> response \<times> db" where
  "register =
     register_with (\<lambda>u. send 201 (JObj [(''success'', JBool True),
                                          (''message'', JStr ''User registered successfully''),
                                          (''registeredUser'', user_json u)]))"

text \<open>The revision (src/unnamed/part_004): only the new id is returned.\<close>

definition register_rev ::
  "(string \<Rightarrow> string \<Rightarrow> string) \<Rightarrow> string \<Rightarrow> oid \<Rightarrow> nat \<Rightarrow> register_body \<Rightarrow> db \<Rightarrow> response \<times> db" where
  "register_rev =
     register_with (\<lambda>u. send 200 (JObj [(''success'', JBool True),
                                          (''message'', JStr ''User registered successfully''),
                                          (''userId'', JStr (user_id u))]))"

record login_body =
  l_email :: "string option"
  l_password :: "string option"

text \<open>
  POST /login. \<open>compare\<close> is \<^verbatim>\<open>bcrypt.compare\<close>, which throws on an undefined password,
  and \<open>sign\<close> is \<^verbatim>\<open>jwt.sign\<close> with the server's secret and the one-hour expiry.
\<close>

definition login ::
  "(string \<Rightarrow> string \<Rightarrow> bool) \<Rightarrow> (oid \<Rightarrow> string) \<Rightarrow> login_body \<Rightarrow> db \<Rightarrow> response" where
  "login compare sign b d =
     (case find (\<lambda>u. Some (email u) = l_email b) (User_Model d) of
        None \<Rightarrow> send 404 (JObj [(''message'', JStr ''User not found'')])
      | Some u \<Rightarrow>
          (case l_password b of
             None \<Rightarrow> send 500 (JObj [(''message'', JStr ''Server error'')])
           | Some pw \<Rightarrow>
               if \<not> compare pw (password u)
               then send 400 (JObj [(''message'', JStr ''Invalid credentials'')])
               else send 200 (JObj [(''token'', JStr (sign (user_id u))),
                                    (''user'', JObj [(''id'', JStr (user_id u)),
                                                     (''username'', JStr (username u)),
                                                     (''email'', JStr (email u))])])))"

text \<open>GET /profile/:userId (src/unnamed/part_000 and part_001).\<close>

definition getProfile :: "string \<Rightarrow> db \<Rightarrow> response" where
  "getProfile userId d =
     (case findById user_id userId (User_Model d) of
        Inl e \<Rightarrow> send 500 (JStr ''Server Error'')
      | Inr None \<Rightarrow> send 404 (msg ''User not found'')
      | Inr (Some u) \<Rightarrow>
          send 200 (JObj [(''id'', JStr (user_id u)), (''username'', JStr (username u)),
                          (''bio'', JStr (bio u)), (''profilePicture'', JStr (profilePicture u))]))"

record profile_body =
  pb_username :: "string option"
  pb_bio :: "string option"
  pb_profilePicture :: "string option"

text \<open>
  \<^verbatim>\<open>findByIdAndUpdate(req.user.id, {username, bio, profilePicture}, {new: true})\<close>: an
  undefined field is left as it is; the unique index on username rejects a name another
  user holds. The result is the updated document, or null when the id resolves to none.
\<close>

definition apply_profile :: "profile_body \<Rightarrow> user \<Rightarrow> user" where
  "apply_profile b u =
     u\<lparr>username := (case pb_username b of None \<Rightarrow> username u | Some v \<Rightarrow> v),
       bio := (case pb_bio b of None \<Rightarrow> bio u | Some v \<Rightarrow> v),
       profilePicture := (case pb_profilePicture b of None \<Rightarrow> profilePicture u | Some v \<Rightarrow> v)\<rparr>"

definition findByIdAndUpdate :: "oid \<Rightarrow> profile_body \<Rightarrow> db \<Rightarrow> js_error + (user option \<times> db)" where
  "findByIdAndUpdate i b d =
     (case find (\<lambda>u. user_id u = i) (User_Model d) of
        None \<Rightarrow> Inr (None, d)
      | Some u \<Rightarrow>
          if list_ex (\<lambda>v. user_id v \<noteq> i \<and> Some (username v) = pb_username b) (User_Model d)
          then Inl (MongoServerError ''E11000 duplicate key error'')
          else Inr (Some (apply_profile b u),
                    d\<lparr>User_Model := map (\<lambda>v. if user_id v = i then apply_profile b v else v)
                                        (User_Model d)\<rparr>))"

text \<open>PUT /profile of src/unnamed/part_000: the result of the update is not inspected.\<close>

definition updateProfile :: "profile_body \<Rightarrow> oid \<Rightarrow> db \<Rightarrow> response \<times> db" where
  "updateProfile b caller d =
     (case findByIdAndUpdate caller b d of
        Inl e \<Rightarrow> (send 500 (JObj [(''message'', JStr ''Error updating profile'')]), d)
      | Inr (u, d') \<Rightarrow> (send 200 (success ''Profile updated''), d'))"

text \<open>The revision (src/unnamed/part_001): 404 when the caller's record is gone.\<close>

definition updateProfile_rev :: "profile_body \<Rightarrow> oid \<Rightarrow> db \<Rightarrow> response \<times> db" where
  "updateProfile_rev b caller d =
     (case findByIdAndUpdate caller b d of
        Inl e \<Rightarrow> (send 500 (JObj [(''message'', JStr ''Error updating profile'')]), d)
      | Inr (u, d') \<Rightarrow>
          if u = None then (send 404 (msg ''User not found''), d')
          else (send 200 (success ''Profile updated''), d'))"


section \<open>Reachable states\<close>

text \<open>
  One step is one request that changes the store, served by any handler of any
  revision, with any body, caller, generated id and clock value. Requests are served
  one after the other: a handler's reads and writes are not interleaved with another's.
\<close>

inductive step :: "db \<Rightarrow> db \<Rightarrow> bool" where
  step_register: "step d (snd (register hash salt newId now rb d))"
| step_register_rev: "step d (snd (register_rev hash salt newId now rb d))"
| step_updateProfile: "step d (snd (updateProfile pb caller d))"
| step_updateProfile_rev: "step d (snd (updateProfile_rev pb caller d))"
| step_create: "step d (snd (post_create newId now b caller d))"
| step_delete: "step d (snd (post_delete postId caller d))"
| step_like: "step d (snd (post_like postId caller d))"
| step_unlike: "step d (snd (post_unlike postId caller d))"
| step_comment_add: "step d (snd (comment_add newId now postId commentText caller d))"
| step_comment_add_rev: "step d (snd (comment_add_rev newId now postId commentText caller d))"
| step_comment_delete: "step d (snd (comment_delete_with denied commentId caller d))"

inductive reachable :: "db \<Rightarrow> bool" where
  reachable_init: "reachable empty_db"
| reachable_step: "reachable d \<Longrightarrow> step d d' \<Longrightarrow> reachable d'"

text \<open>The invariant of the like ledger: no post lists a user twice among its likes.\<close>

definition likes_unique :: "db \<Rightarrow> bool" where
  "likes_unique d = list_all (\<lambda>p. distinct (likes p)) (Post_Model d)"


section \<open>Example data\<close>

text \<open>
  The scenario of the specification: alice creates a post on AAPL and likes it; bob is
  another user.
\<close>

definition alice :: oid where
  "alice = ''aaaaaaaaaaaaaaaaaaaaaaaa''"

definition bob :: oid where
  "bob = ''bbbbbbbbbbbbbbbbbbbbbbbb''"

definition post1 :: oid where
  "post1 = ''0123456789abcdef01234567''"

definition aapl :: post_body where
  "aapl = \<lparr>b_stockSymbol = Some ''AAPL'', b_title = Some ''t'', b_description = Some ''d'',
            b_tags = None\<rparr>"

definition post_posted :: post where
  "post_posted =
     \<lparr>post_id = post1, post_user = alice, stockSymbol = ''AAPL'', title = ''t'',
      description = ''d'', tags = [], comments = [], likes = [], post_createdAt = 0,
      post_v = 0\<rparr>"

definition db_posted :: db where
  "db_posted = snd (post_create post1 0 aapl alice empty_db)"

definition db_liked :: db where
  "db_liked = snd (post_like post1 alice db_posted)"


definition comment1 :: oid where
  "comment1 = ''c0ffee00c0ffee00c0ffee00''"

definition comment_posted :: comment where
  "comment_posted = \<lparr>comment_id = comment1, comment_user = bob, comment_post = post1,
      content = ''hi'', comment_createdAt = 1\<rparr>"

definition db_commented :: db where
  "db_commented = snd (comment_add_rev comment1 1 post1 (Some ''hi'') bob db_posted)"


definition alice_form :: register_body where
  "alice_form = \<lparr>r_username = Some ''alice'', r_email = Some ''a@x.com'', r_password = Some ''secret''\<rparr>"

text \<open>A stand-in for the salted hash, for evaluation only: the salt followed by the password.\<close>

definition toy_hash :: "string \<Rightarrow> string \<Rightarrow> string" where
  "toy_hash pw salt = salt @ pw"

text \<open>Fifteen posts, and the query for the second page of ten.\<close>

definition fifteen :: db where
  "fifteen =
     \<lparr>User_Model = [],
      Post_Model = map (\<lambda>c. post_posted\<lparr>post_id := replicate 23 (CHR ''0'') @ [c]\<rparr>)
                       ''0123456789abcde'',
      Comment_Model = []\<rparr>"

definition page2 :: list_query where
  "page2 = \<lparr>q_stockSymbol = None, q_tags = None, q_sortBy = None, q_page = Some 2,
             q_limit = Some 10\<rparr>"

text \<open>The ordering of a store for a query with no sort, as in the examples.\<close>

definition natural_order :: "sort_spec \<Rightarrow> post list \<Rightarrow> post list" where
  "natural_order s xs = xs"


section \<open>The auth gate: results\<close>

text \<open>
  The revision of the gate lets a request through exactly when the header holds, after
  its first space, a non-empty token that verifies; every other request is answered
  with 401 before the handler runs, and the state is left as it is.
\<close>

lemma authenticator_rev_passes_iff:
  "authenticator_rev check authorization = Next u \<longleftrightarrow>
   (\<exists>h t. authorization = Some h \<and> h \<noteq> [] \<and> at_index (js_split (CHR '' '') h) 1 = Some t
          \<and> t \<noteq> [] \<and> check t = Some u)"
  by (cases authorization)
     (auto simp: authenticator_rev_def jwt_verify_def split: option.splits sum.splits if_splits)

lemma authenticator_rev_answers_401:
  "(\<exists>u. authenticator_rev check authorization = Next u)
   \<or> (\<exists>r. authenticator_rev check authorization = Responded r \<and> status r = 401)"
  by (auto simp: authenticator_rev_def send_def split: sum.splits)

lemma protected_rev_short_circuit:
  assumes "\<forall>u. authenticator_rev check authorization \<noteq> Next u"
  shows "\<exists>r. protected (authenticator_rev check authorization) handler d = (Some r, d)
             \<and> status r = 401"
  using assms authenticator_rev_answers_401[of check authorization]
  by (auto simp: protected_def)

lemma authenticator_invalid_token:
  "at_index (js_split (CHR '' '') h) 1 = Some t \<Longrightarrow> t \<noteq> [] \<Longrightarrow> check t = None \<Longrightarrow>
   authenticator check (Some h) = Responded (send 401 (msg ''Token is not valid''))"
  by (simp add: authenticator_def jwt_verify_def)

text \<open>
  C2. In middleware/authMiddle.js a request with no Authorization header, or with a
  header that holds no token after the first space, is not answered with 401: the
  middleware throws (a TypeError from \<^verbatim>\<open>split\<close> on undefined, or its own Error) before
  its try block, so neither it nor the handler sends a response, and the 401 of its
  catch branch is reached only by a token that fails verification.
\<close>

theorem authenticator_missing_header_throws:
  "authenticator check None = Rejected (TypeError ''Cannot read properties of undefined'')
   \<and> authenticator check (Some ''Bearer'') = Rejected (Error ''Not authorized to access this resource'')
   \<and> protected (authenticator check None) handler d = (None, d)
   \<and> protected (authenticator check (Some ''Bearer'')) handler d = (None, d)"
  by (simp add: authenticator_def protected_def at_index_def)

section \<open>Lookups and the example states\<close>

lemma find_key: "find (\<lambda>q. key q = i) ps = Some p \<Longrightarrow> key p = i \<and> p \<in> set ps"
  by (induction ps) (auto split: if_splits)

lemma find_None_key: "find (\<lambda>q. key q = i) ps = None \<longleftrightarrow> i \<notin> set (map key ps)"
  by (induction ps) auto

lemma find_replace:
  "find (\<lambda>q. key q = i) ps = Some p \<Longrightarrow> key p' = i \<Longrightarrow> j = i \<Longrightarrow>
   find (\<lambda>q. key q = i) (map (\<lambda>q. if key q = j then p' else q) ps) = Some p'"
  by (induction ps) (auto split: if_splits)

lemma findById_saved:
  assumes "castObjectId postId = Some i" "find (\<lambda>q. post_id q = i) (Post_Model d) = Some p"
    and "post_id p' = post_id p"
  shows "findById post_id postId (Post_Model (save_post p' d))
      = Inr (Some (p'\<lparr>post_v := post_v p' + 1\<rparr>))"
proof -
  have "post_id p' = i" using assms find_key[of post_id i "Post_Model d" p] by simp
  then show ?thesis
    using assms find_replace[of post_id i "Post_Model d" p "p'\<lparr>post_v := post_v p' + 1\<rparr>" "post_id p'"]
    by (simp add: findById_def save_post_def)
qed

lemma cast_post1: "castObjectId post1 = Some post1"
  by (simp add: castObjectId_def post1_def isHex_def lowerHex_def)

lemma db_posted_eq:
  "db_posted = \<lparr>User_Model = [], Post_Model = [post_posted], Comment_Model = []\<rparr>"
  by (simp add: db_posted_def post_create_def aapl_def required_def empty_db_def post_posted_def)

lemma db_liked_eq:
  "db_liked = \<lparr>User_Model = [], Post_Model = [post_posted\<lparr>likes := [alice], post_v := 1\<rparr>],
      Comment_Model = []\<rparr>"
  by (simp add: db_liked_def db_posted_eq post_like_def findById_def cast_post1 save_post_def
      post_posted_def)

lemma findById_absent:
  "castObjectId param = Some i \<Longrightarrow> i \<notin> set (map key coll) \<Longrightarrow> findById key param coll = Inr None"
  using find_None_key[of key i coll] by (simp add: findById_def)

lemma findById_present:
  "castObjectId param = Some i \<Longrightarrow> find (\<lambda>q. key q = i) coll = Some x \<Longrightarrow>
   findById key param coll = Inr (Some x)"
  by (simp add: findById_def)

lemma findById_malformed:
  "castObjectId param = None \<Longrightarrow> findById key param coll = Inl (CastError ''Cast to ObjectId failed'')"
  by (simp add: findById_def)

lemma findById_None_iff:
  "findById key param coll = Inr None \<longleftrightarrow>
   (\<exists>i. castObjectId param = Some i \<and> i \<notin> set (map key coll))"
  using find_None_key[of key _ coll]
  by (auto simp: findById_def split: option.splits)

lemma cast_comment1: "castObjectId comment1 = Some comment1"
  by (simp add: castObjectId_def comment1_def isHex_def lowerHex_def)

lemma db_commented_eq:
  "db_commented = \<lparr>User_Model = [], Post_Model = [post_posted\<lparr>comments := [comment1], post_v := 1\<rparr>],
      Comment_Model = [comment_posted]\<rparr>"
  by (simp add: db_commented_def db_posted_eq comment_add_rev_def findById_def cast_post1
      save_post_def post_posted_def required_def comment_posted_def)

lemma alice_not_bob: "alice \<noteq> bob"
  by (simp add: alice_def bob_def)

lemma reachable_db_liked: "reachable db_liked"
  unfolding db_liked_def db_posted_def
  by (intro reachable_step[OF _ step_like] reachable_step[OF _ step_create] reachable_init)


section \<open>The like ledger: results\<close>

lemma likes_unique_member:
  "likes_unique d \<Longrightarrow> find (\<lambda>q. post_id q = i) (Post_Model d) = Some p \<Longrightarrow> distinct (likes p)"
  using find_key[of post_id i "Post_Model d" p] by (auto simp: likes_unique_def list_all_iff)

lemma likes_unique_save:
  "likes_unique d \<Longrightarrow> distinct (likes p') \<Longrightarrow> likes_unique (save_post p' d)"
  by (auto simp: likes_unique_def save_post_def list_all_iff)

lemma likes_unique_same_posts:
  "Post_Model d' = Post_Model d \<Longrightarrow> likes_unique d' = likes_unique d"
  by (simp add: likes_unique_def)

lemma register_with_posts:
  "Post_Model (snd (register_with created hash salt newId now rb d)) = Post_Model d"
  by (simp add: register_with_def Let_def split: option.splits)

lemma findByIdAndUpdate_posts:
  "findByIdAndUpdate i b d = Inr (u, d') \<Longrightarrow> Post_Model d' = Post_Model d"
  by (auto simp: findByIdAndUpdate_def split: option.splits if_splits)

lemma updateProfile_posts: "Post_Model (snd (updateProfile pb caller d)) = Post_Model d"
  by (auto simp: updateProfile_def dest: findByIdAndUpdate_posts split: sum.splits)

lemma updateProfile_rev_posts: "Post_Model (snd (updateProfile_rev pb caller d)) = Post_Model d"
  by (auto simp: updateProfile_rev_def dest: findByIdAndUpdate_posts split: sum.splits)

lemma comment_add_posts:
  "Post_Model (snd (comment_add newId now postId ct caller d)) = Post_Model d"
  by (simp add: comment_add_def split: sum.splits option.splits)

lemma comment_delete_posts:
  "Post_Model (snd (comment_delete_with denied commentId caller d)) = Post_Model d"
  by (simp add: comment_delete_with_def split: sum.splits option.splits)

lemma create_likes_unique:
  "likes_unique d \<Longrightarrow> likes_unique (snd (post_create newId now b caller d))"
  by (simp add: post_create_def likes_unique_def)

lemma delete_likes_unique:
  "likes_unique d \<Longrightarrow> likes_unique (snd (post_delete postId caller d))"
  by (auto simp: post_delete_def findByIdAndDelete_def likes_unique_def list_all_iff
      split: sum.splits option.splits)

lemma like_likes_unique:
  "likes_unique d \<Longrightarrow> likes_unique (snd (post_like postId caller d))"
  by (auto simp: post_like_def findById_def
      intro!: likes_unique_save dest: likes_unique_member split: option.splits)

lemma unlike_likes_unique:
  "likes_unique d \<Longrightarrow> likes_unique (snd (post_unlike postId caller d))"
  by (auto simp: post_unlike_def findById_def
      intro!: likes_unique_save dest: likes_unique_member split: option.splits)

lemma comment_add_rev_likes_unique:
  "likes_unique d \<Longrightarrow> likes_unique (snd (comment_add_rev newId now postId ct caller d))"
proof -
  assume inv: "likes_unique d"
  have aux: "\<And>p c. find (\<lambda>q. post_id q = the (castObjectId postId)) (Post_Model d) = Some p \<Longrightarrow>
      likes_unique (save_post (p\<lparr>comments := comments p @ [newId]\<rparr>)
         (d\<lparr>Comment_Model := Comment_Model d @ [c]\<rparr>))"
  proof -
    fix p c assume f: "find (\<lambda>q. post_id q = the (castObjectId postId)) (Post_Model d) = Some p"
    have "likes_unique (d\<lparr>Comment_Model := Comment_Model d @ [c]\<rparr>)"
      using inv by (simp add: likes_unique_def)
    moreover have "distinct (likes (p\<lparr>comments := comments p @ [newId]\<rparr>))"
      using likes_unique_member[OF inv f] by simp
    ultimately show "likes_unique (save_post (p\<lparr>comments := comments p @ [newId]\<rparr>)
         (d\<lparr>Comment_Model := Comment_Model d @ [c]\<rparr>))"
      by (rule likes_unique_save)
  qed
  show ?thesis
    using inv aux
    by (auto simp: comment_add_rev_def findById_def split: option.splits)
qed

lemma step_likes_unique: "step d d' \<Longrightarrow> likes_unique d \<Longrightarrow> likes_unique d'"
proof (induction rule: step.induct)
  case (step_register d hash salt newId now rb)
  then show ?case
    using likes_unique_same_posts[OF register_with_posts] by (simp add: register_def)
next
  case (step_register_rev d hash salt newId now rb)
  then show ?case
    using likes_unique_same_posts[OF register_with_posts] by (simp add: register_rev_def)
next
  case (step_updateProfile d pb caller)
  then show ?case using likes_unique_same_posts[OF updateProfile_posts] by simp
next
  case (step_updateProfile_rev d pb caller)
  then show ?case using likes_unique_same_posts[OF updateProfile_rev_posts] by simp
next
  case (step_create d newId now b caller)
  then show ?case by (rule create_likes_unique)
next
  case (step_delete d postId caller)
  then show ?case by (rule delete_likes_unique)
next
  case (step_like d postId caller)
  then show ?case by (rule like_likes_unique)
next
  case (step_unlike d postId caller)
  then show ?case by (rule unlike_likes_unique)
next
  case (step_comment_add d newId now postId ct caller)
  then show ?case using likes_unique_same_posts[OF comment_add_posts] by simp
next
  case (step_comment_add_rev d newId now postId ct caller)
  then show ?case by (rule comment_add_rev_likes_unique)
next
  case (step_comment_delete d denied commentId caller)
  then show ?case using likes_unique_same_posts[OF comment_delete_posts] by simp
qed

lemma reachable_likes_unique: "reachable d \<Longrightarrow> likes_unique d"
proof (induction rule: reachable.induct)
  case reachable_init
  show ?case by (simp add: likes_unique_def empty_db_def)
next
  case (reachable_step d d')
  then show ?case using step_likes_unique by blast
qed

lemma filter_absent: "x \<notin> set xs \<Longrightarrow> filter (\<lambda>y. y \<noteq> x) xs = xs"
  by (induction xs) auto

lemma unlike_length:
  "distinct xs \<Longrightarrow> x \<in> set xs \<Longrightarrow> length (filter (\<lambda>y. y \<noteq> x) xs) + 1 = length xs"
  by (induction xs) (auto simp: filter_absent)

lemma like_malformed:
  "castObjectId postId = None \<Longrightarrow>
   post_like postId caller d = (server_error (CastError ''Cast to ObjectId failed''), d)"
  by (simp add: post_like_def findById_malformed)

lemma unlike_malformed:
  "castObjectId postId = None \<Longrightarrow>
   post_unlike postId caller d = (server_error (CastError ''Cast to ObjectId failed''), d)"
  by (simp add: post_unlike_def findById_malformed)

lemma like_wellformed:
  assumes wf: "castObjectId postId = Some i"
  shows "(status (fst (post_like postId caller d)) = 404 \<longleftrightarrow> i \<notin> set (map post_id (Post_Model d)))
    \<and> (\<forall>p. find (\<lambda>q. post_id q = i) (Post_Model d) = Some p \<longrightarrow>
          (fst (post_like postId caller d) = send 400 (msg ''Post already liked'')
             \<longleftrightarrow> caller \<in> set (likes p))
        \<and> (caller \<in> set (likes p) \<longrightarrow> snd (post_like postId caller d) = d)
        \<and> (caller \<notin> set (likes p) \<longrightarrow>
             fst (post_like postId caller d) = send 200 (success ''Post liked'')
           \<and> findById post_id postId (Post_Model (snd (post_like postId caller d)))
               = Inr (Some (p\<lparr>likes := caller # likes p, post_v := post_v p + 1\<rparr>))))"
proof -
  have nf: "status (fst (post_like postId caller d)) = 404 \<longleftrightarrow> i \<notin> set (map post_id (Post_Model d))"
    using wf find_None_key[of post_id i "Post_Model d"]
    by (auto simp: post_like_def findById_def send_def split: option.splits)
  have rest: "\<And>p. find (\<lambda>q. post_id q = i) (Post_Model d) = Some p \<Longrightarrow>
          (fst (post_like postId caller d) = send 400 (msg ''Post already liked'')
             \<longleftrightarrow> caller \<in> set (likes p))
        \<and> (caller \<in> set (likes p) \<longrightarrow> snd (post_like postId caller d) = d)
        \<and> (caller \<notin> set (likes p) \<longrightarrow>
             fst (post_like postId caller d) = send 200 (success ''Post liked'')
           \<and> findById post_id postId (Post_Model (snd (post_like postId caller d)))
               = Inr (Some (p\<lparr>likes := caller # likes p, post_v := post_v p + 1\<rparr>)))"
  proof -
    fix p assume f: "find (\<lambda>q. post_id q = i) (Post_Model d) = Some p"
    have saved: "findById post_id postId (Post_Model (save_post (p\<lparr>likes := caller # likes p\<rparr>) d))
        = Inr (Some (p\<lparr>likes := caller # likes p, post_v := post_v p + 1\<rparr>))"
      using findById_saved[OF wf f, of "p\<lparr>likes := caller # likes p\<rparr>"] by simp
    show "(fst (post_like postId caller d) = send 400 (msg ''Post already liked'')
             \<longleftrightarrow> caller \<in> set (likes p))
        \<and> (caller \<in> set (likes p) \<longrightarrow> snd (post_like postId caller d) = d)
        \<and> (caller \<notin> set (likes p) \<longrightarrow>
             fst (post_like postId caller d) = send 200 (success ''Post liked'')
           \<and> findById post_id postId (Post_Model (snd (post_like postId caller d)))
               = Inr (Some (p\<lparr>likes := caller # likes p, post_v := post_v p + 1\<rparr>)))"
      using wf f saved
      by (simp add: post_like_def findById_def send_def)
  qed
  from nf rest show ?thesis by blast
qed

text \<open>
  C4, as the claim states it for every postId, fails on a path parameter that is not
  a well-formed identity: no post has the id ''42'', so the post is absent, yet like
  answers 500 from its catch branch and not 404.
\<close>

theorem like_malformed_id_counterexample:
  "''42'' \<notin> set (map post_id (Post_Model db_posted))
   \<and> status (fst (post_like ''42'' alice db_posted)) = 500
   \<and> status (fst (post_like ''42'' alice db_posted)) \<noteq> 404"
  by (simp add: db_posted_eq post_posted_def post1_def post_like_def findById_def
      castObjectId_def server_error_def send_def)

text \<open>
  C4, amended. For every caller and every well-formed postId, like answers 404 exactly
  when no post has that id. For the post found, it answers 400 "Post already liked"
  exactly when the caller is among the post's likes, and then leaves the store as it is;
  otherwise it answers 200 and the stored post has the caller at the front of its likes.
  For a postId that is not a well-formed identity, like answers 500 and leaves the store
  as it is.
\<close>

theorem like_outcomes:
  "(castObjectId postId = None \<longrightarrow>
      status (fst (post_like postId caller d)) = 500 \<and> snd (post_like postId caller d) = d)
   \<and> (\<forall>i. castObjectId postId = Some i \<longrightarrow>
        (status (fst (post_like postId caller d)) = 404 \<longleftrightarrow> i \<notin> set (map post_id (Post_Model d)))
      \<and> (\<forall>p. find (\<lambda>q. post_id q = i) (Post_Model d) = Some p \<longrightarrow>
            (fst (post_like postId caller d) = send 400 (msg ''Post already liked'')
               \<longleftrightarrow> caller \<in> set (likes p))
          \<and> (caller \<in> set (likes p) \<longrightarrow> snd (post_like postId caller d) = d)
          \<and> (caller \<notin> set (likes p) \<longrightarrow>
               fst (post_like postId caller d) = send 200 (success ''Post liked'')
             \<and> findById post_id postId (Post_Model (snd (post_like postId caller d)))
                 = Inr (Some (p\<lparr>likes := caller # likes p, post_v := post_v p + 1\<rparr>)))))"
proof -
  have bad: "castObjectId postId = None \<longrightarrow>
      status (fst (post_like postId caller d)) = 500 \<and> snd (post_like postId caller d) = d"
    by (simp add: like_malformed server_error_def send_def)
  from bad like_wellformed[of postId _ caller d] show ?thesis by blast
qed

theorem like_outcomes_witness:
  "castObjectId post1 = Some post1
   \<and> fst (post_like post1 alice db_posted) = send 200 (success ''Post liked'')
   \<and> findById post_id post1 (Post_Model (snd (post_like post1 alice db_posted)))
        = Inr (Some (post_posted\<lparr>likes := [alice], post_v := 1\<rparr>))
   \<and> fst (post_like post1 alice db_liked) = send 400 (msg ''Post already liked'')
   \<and> status (fst (post_like post1 bob empty_db)) = 404
   \<and> castObjectId ''42'' = None
   \<and> status (fst (post_like ''42'' alice db_posted)) = 500
   \<and> snd (post_like ''42'' alice db_posted) = db_posted"
proof -
  have f0: "find (\<lambda>q. post_id q = post1) (Post_Model db_posted) = Some post_posted"
    by (simp add: db_posted_eq post_posted_def)
  have f1: "find (\<lambda>q. post_id q = post1) (Post_Model db_liked)
      = Some (post_posted\<lparr>likes := [alice], post_v := 1\<rparr>)"
    by (simp add: db_liked_eq post_posted_def)
  have n0: "likes post_posted = []" "post_v post_posted = 0" by (simp_all add: post_posted_def)
  have n1: "alice \<in> set (likes (post_posted\<lparr>likes := [alice], post_v := 1\<rparr>))" by simp
  have e: "post1 \<notin> set (map post_id (Post_Model empty_db))" by (simp add: empty_db_def)
  have c: "castObjectId ''42'' = None" by (simp add: castObjectId_def)
  have a: "fst (post_like post1 alice db_posted) = send 200 (success ''Post liked'')
     \<and> findById post_id post1 (Post_Model (snd (post_like post1 alice db_posted)))
        = Inr (Some (post_posted\<lparr>likes := [alice], post_v := 1\<rparr>))"
    using like_outcomes[of post1 alice db_posted] cast_post1 f0 n0 by simp
  have b: "fst (post_like post1 alice db_liked) = send 400 (msg ''Post already liked'')"
    using like_outcomes[of post1 alice db_liked] cast_post1 f1 n1 by blast
  have n: "status (fst (post_like post1 bob empty_db)) = 404"
    using like_outcomes[of post1 bob empty_db] cast_post1 e by blast
  have m: "status (fst (post_like ''42'' alice db_posted)) = 500
     \<and> snd (post_like ''42'' alice db_posted) = db_posted"
    using like_outcomes[of "''42''" alice db_posted] c by blast
  from a b n m c cast_post1 show ?thesis by blast
qed

lemma unlike_wellformed:
  assumes r: "reachable d" and wf: "castObjectId postId = Some i"
  shows "(i \<notin> set (map post_id (Post_Model d)) \<longrightarrow>
            post_unlike postId caller d = (send 404 (msg ''Post not found''), d))
    \<and> (\<forall>p. find (\<lambda>q. post_id q = i) (Post_Model d) = Some p \<longrightarrow>
          (fst (post_unlike postId caller d) = send 400 (msg ''Post has not yet been liked'')
             \<longleftrightarrow> caller \<notin> set (likes p))
        \<and> (caller \<in> set (likes p) \<longrightarrow>
             fst (post_unlike postId caller d) = send 200 (success ''Post unliked'')
           \<and> (\<exists>p'. findById post_id postId (Post_Model (snd (post_unlike postId caller d)))
                    = Inr (Some p')
                 \<and> set (likes p') = set (likes p) - {caller}
                 \<and> likesCount p' + 1 = likesCount p)))"
proof -
  have absent: "i \<notin> set (map post_id (Post_Model d)) \<longrightarrow>
            post_unlike postId caller d = (send 404 (msg ''Post not found''), d)"
    using wf find_None_key[of post_id i "Post_Model d"]
    by (auto simp: post_unlike_def findById_def)
  have present: "\<And>p. find (\<lambda>q. post_id q = i) (Post_Model d) = Some p \<Longrightarrow>
          (fst (post_unlike postId caller d) = send 400 (msg ''Post has not yet been liked'')
             \<longleftrightarrow> caller \<notin> set (likes p))
        \<and> (caller \<in> set (likes p) \<longrightarrow>
             fst (post_unlike postId caller d) = send 200 (success ''Post unliked'')
           \<and> (\<exists>p'. findById post_id postId (Post_Model (snd (post_unlike postId caller d)))
                    = Inr (Some p')
                 \<and> set (likes p') = set (likes p) - {caller}
                 \<and> likesCount p' + 1 = likesCount p))"
  proof -
    fix p assume f: "find (\<lambda>q. post_id q = i) (Post_Model d) = Some p"
    let ?p' = "p\<lparr>likes := filter (\<lambda>like. like \<noteq> caller) (likes p)\<rparr>"
    let ?s = "?p'\<lparr>post_v := post_v ?p' + 1\<rparr>"
    have dist: "distinct (likes p)"
      using reachable_likes_unique[OF r] f by (rule likes_unique_member)
    have saved: "findById post_id postId (Post_Model (save_post ?p' d)) = Inr (Some ?s)"
      using findById_saved[OF wf f, of ?p'] by simp
    have cnt: "caller \<in> set (likes p) \<Longrightarrow> likesCount ?s + 1 = likesCount p"
      using unlike_length[OF dist] by (simp add: likesCount_def)
    have members: "set (likes ?s) = set (likes p) - {caller}" by auto
    show "(fst (post_unlike postId caller d) = send 400 (msg ''Post has not yet been liked'')
             \<longleftrightarrow> caller \<notin> set (likes p))
        \<and> (caller \<in> set (likes p) \<longrightarrow>
             fst (post_unlike postId caller d) = send 200 (success ''Post unliked'')
           \<and> (\<exists>p'. findById post_id postId (Post_Model (snd (post_unlike postId caller d)))
                    = Inr (Some p')
                 \<and> set (likes p') = set (likes p) - {caller}
                 \<and> likesCount p' + 1 = likesCount p))"
    proof (cases "caller \<in> set (likes p)")
      case True
      have eq: "post_unlike postId caller d = (send 200 (success ''Post unliked''), save_post ?p' d)"
        using wf f True by (simp add: post_unlike_def findById_def)
      have "findById post_id postId (Post_Model (snd (post_unlike postId caller d))) = Inr (Some ?s)
          \<and> set (likes ?s) = set (likes p) - {caller} \<and> likesCount ?s + 1 = likesCount p"
        using saved cnt[OF True] members by (simp add: eq)
      then have "\<exists>p'. findById post_id postId (Post_Model (snd (post_unlike postId caller d)))
                    = Inr (Some p')
                 \<and> set (likes p') = set (likes p) - {caller}
                 \<and> likesCount p' + 1 = likesCount p"
        by blast
      then show ?thesis using True by (simp add: eq send_def)
    next
      case False
      then show ?thesis using wf f by (simp add: post_unlike_def findById_def)
    qed
  qed
  from absent present show ?thesis by blast
qed

text \<open>
  C5, as the claim states it, fails in its last clause on a path parameter that is not
  a well-formed identity: no post has the id ''42'', so the post is absent, yet unlike
  answers 500 from its catch branch and not 404.
\<close>

theorem unlike_malformed_id_counterexample:
  "''42'' \<notin> set (map post_id (Post_Model db_liked))
   \<and> status (fst (post_unlike ''42'' alice db_liked)) = 500
   \<and> status (fst (post_unlike ''42'' alice db_liked)) \<noteq> 404"
  by (simp add: db_liked_eq post_posted_def post1_def post_unlike_def findById_def
      castObjectId_def server_error_def send_def)

text \<open>
  C5, amended. In every reachable state: for a well-formed postId, unlike of an absent
  post answers 404 and changes nothing; for the post found it answers 400 "Post has not
  yet been liked" exactly when the caller is not among the likes; when the caller is
  among them it answers 200, the stored post no longer lists the caller, and its
  likesCount is smaller by exactly one. For a postId that is not a well-formed identity,
  unlike answers 500 and changes nothing.
\<close>

theorem unlike_outcomes:
  "reachable d \<longrightarrow>
     (castObjectId postId = None \<longrightarrow>
        status (fst (post_unlike postId caller d)) = 500 \<and> snd (post_unlike postId caller d) = d)
   \<and> (\<forall>i. castObjectId postId = Some i \<longrightarrow>
        (i \<notin> set (map post_id (Post_Model d)) \<longrightarrow>
            post_unlike postId caller d = (send 404 (msg ''Post not found''), d))
      \<and> (\<forall>p. find (\<lambda>q. post_id q = i) (Post_Model d) = Some p \<longrightarrow>
            (fst (post_unlike postId caller d) = send 400 (msg ''Post has not yet been liked'')
               \<longleftrightarrow> caller \<notin> set (likes p))
          \<and> (caller \<in> set (likes p) \<longrightarrow>
               fst (post_unlike postId caller d) = send 200 (success ''Post unliked'')
             \<and> (\<exists>p'. findById post_id postId (Post_Model (snd (post_unlike postId caller d)))
                      = Inr (Some p')
                   \<and> set (likes p') = set (likes p) - {caller}
                   \<and> likesCount p' + 1 = likesCount p))))"
proof
  assume r: "reachable d"
  have bad: "castObjectId postId = None \<longrightarrow>
        status (fst (post_unlike postId caller d)) = 500 \<and> snd (post_unlike postId caller d) = d"
    by (simp add: unlike_malformed server_error_def send_def)
  from bad unlike_wellformed[OF r, of postId _ caller]
  show "(castObjectId postId = None \<longrightarrow>
        status (fst (post_unlike postId caller d)) = 500 \<and> snd (post_unlike postId caller d) = d)
   \<and> (\<forall>i. castObjectId postId = Some i \<longrightarrow>
        (i \<notin> set (map post_id (Post_Model d)) \<longrightarrow>
            post_unlike postId caller d = (send 404 (msg ''Post not found''), d))
      \<and> (\<forall>p. find (\<lambda>q. post_id q = i) (Post_Model d) = Some p \<longrightarrow>
            (fst (post_unlike postId caller d) = send 400 (msg ''Post has not yet been liked'')
               \<longleftrightarrow> caller \<notin> set (likes p))
          \<and> (caller \<in> set (likes p) \<longrightarrow>
               fst (post_unlike postId caller d) = send 200 (success ''Post unliked'')
             \<and> (\<exists>p'. findById post_id postId (Post_Model (snd (post_unlike postId caller d)))
                      = Inr (Some p')
                   \<and> set (likes p') = set (likes p) - {caller}
                   \<and> likesCount p' + 1 = likesCount p))))"
    by blast
qed

theorem unlike_outcomes_witness:
  "reachable db_liked \<and> castObjectId post1 = Some post1
   \<and> fst (post_unlike post1 alice db_liked) = send 200 (success ''Post unliked'')
   \<and> fst (post_unlike post1 bob db_liked) = send 400 (msg ''Post has not yet been liked'')
   \<and> post_unlike post1 alice empty_db = (send 404 (msg ''Post not found''), empty_db)
   \<and> castObjectId ''42'' = None
   \<and> status (fst (post_unlike ''42'' alice db_liked)) = 500
   \<and> snd (post_unlike ''42'' alice db_liked) = db_liked"
proof -
  have f1: "find (\<lambda>q. post_id q = post1) (Post_Model db_liked)
      = Some (post_posted\<lparr>likes := [alice], post_v := 1\<rparr>)"
    by (simp add: db_liked_eq post_posted_def)
  have n1: "alice \<in> set (likes (post_posted\<lparr>likes := [alice], post_v := 1\<rparr>))" by simp
  have n2: "bob \<notin> set (likes (post_posted\<lparr>likes := [alice], post_v := 1\<rparr>))"
    using alice_not_bob by simp
  have e: "post1 \<notin> set (map post_id (Post_Model empty_db))" by (simp add: empty_db_def)
  have c: "castObjectId ''42'' = None" by (simp add: castObjectId_def)
  have a: "fst (post_unlike post1 alice db_liked) = send 200 (success ''Post unliked'')"
    using unlike_outcomes[of db_liked post1 alice] reachable_db_liked cast_post1 f1 n1 by blast
  have b: "fst (post_unlike post1 bob db_liked) = send 400 (msg ''Post has not yet been liked'')"
    using unlike_outcomes[of db_liked post1 bob] reachable_db_liked cast_post1 f1 n2 by blast
  have n: "post_unlike post1 alice empty_db = (send 404 (msg ''Post not found''), empty_db)"
    using unlike_outcomes[of empty_db post1 alice] reachable_init cast_post1 e by blast
  have m: "status (fst (post_unlike ''42'' alice db_liked)) = 500
     \<and> snd (post_unlike ''42'' alice db_liked) = db_liked"
    using unlike_outcomes[of db_liked "''42''" alice] reachable_db_liked c by blast
  from a b n m c cast_post1 reachable_db_liked show ?thesis by blast
qed

text \<open>
  C6. In every reachable state no post lists a user twice among its likes, and every
  step (any handler of any revision, any request) keeps that invariant.
\<close>

theorem like_set_invariant:
  "(reachable d \<longrightarrow> likes_unique d) \<and> (likes_unique d \<and> step d d' \<longrightarrow> likes_unique d')"
  using reachable_likes_unique step_likes_unique by blast

theorem like_set_invariant_witness:
  "reachable db_liked \<and> likes_unique db_liked
   \<and> step db_liked (snd (post_unlike post1 alice db_liked))
   \<and> likes_unique (snd (post_unlike post1 alice db_liked))"
proof -
  have r: "reachable db_liked"
    unfolding db_liked_def db_posted_def
    by (intro reachable_step[OF _ step_like] reachable_step[OF _ step_create] reachable_init)
  have s: "step db_liked (snd (post_unlike post1 alice db_liked))" by (rule step_unlike)
  show ?thesis
    using like_set_invariant[of db_liked "snd (post_unlike post1 alice db_liked)"] r s by blast
qed

section \<open>Ownership-checked deletion: results\<close>

text \<open>
  C3, as the claim states it, fails where the post or comment does not exist: a
  well-formed id that resolves to no record is answered with 404 by the guard that
  precedes the ownership check, not with the 401 of the ownership check.
\<close>

theorem delete_absent_counterexample:
  "post_delete post1 bob empty_db = (send 404 (msg ''Post not found''), empty_db)
   \<and> status (fst (post_delete post1 bob empty_db)) \<noteq> 401
   \<and> comment_delete post1 bob empty_db = (send 404 (msg ''Comment not found''), empty_db)
   \<and> status (fst (comment_delete post1 bob empty_db)) \<noteq> 401"
  by (simp add: post_delete_def comment_delete_def comment_delete_with_def findById_def
      cast_post1 empty_db_def send_def)

text \<open>
  C3, amended. For an existing post whose owner is not the caller, delete answers 401
  "User not authorized" and leaves the store as it is, so that getById still answers 200
  with the post; for an existing comment whose author is not the caller, delete answers
  401 and leaves the store as it is (in both revisions, whatever the text of the
  message). For a well-formed id that resolves to no post or comment, delete answers 404
  and leaves the store as it is.
\<close>

theorem delete_by_non_owner:
  "(\<forall>i p. castObjectId postId = Some i \<and> find (\<lambda>q. post_id q = i) (Post_Model d) = Some p
           \<and> post_user p \<noteq> caller \<longrightarrow>
      post_delete postId caller d = (send 401 (msg ''User not authorized''), d)
      \<and> post_getById postId (snd (post_delete postId caller d)) = send 200 (post_json d p))
   \<and> (\<forall>j c. castObjectId commentId = Some j
           \<and> find (\<lambda>q. comment_id q = j) (Comment_Model d) = Some c
           \<and> comment_user c \<noteq> caller \<longrightarrow>
      comment_delete_with denied commentId caller d = (send 401 (msg denied), d))
   \<and> (\<forall>i. castObjectId postId = Some i \<and> i \<notin> set (map post_id (Post_Model d)) \<longrightarrow>
      post_delete postId caller d = (send 404 (msg ''Post not found''), d))
   \<and> (\<forall>j. castObjectId commentId = Some j \<and> j \<notin> set (map comment_id (Comment_Model d)) \<longrightarrow>
      comment_delete_with denied commentId caller d = (send 404 (msg ''Comment not found''), d))"
proof -
  have post_denied: "\<And>i p. castObjectId postId = Some i \<Longrightarrow>
      find (\<lambda>q. post_id q = i) (Post_Model d) = Some p \<Longrightarrow> post_user p \<noteq> caller \<Longrightarrow>
      post_delete postId caller d = (send 401 (msg ''User not authorized''), d)
      \<and> post_getById postId (snd (post_delete postId caller d)) = send 200 (post_json d p)"
    by (simp add: post_delete_def post_getById_def findById_present)
  have comment_denied: "\<And>j c. castObjectId commentId = Some j \<Longrightarrow>
      find (\<lambda>q. comment_id q = j) (Comment_Model d) = Some c \<Longrightarrow> comment_user c \<noteq> caller \<Longrightarrow>
      comment_delete_with denied commentId caller d = (send 401 (msg denied), d)"
    by (simp add: comment_delete_with_def findById_present)
  have post_absent: "\<And>i. castObjectId postId = Some i \<Longrightarrow> i \<notin> set (map post_id (Post_Model d)) \<Longrightarrow>
      post_delete postId caller d = (send 404 (msg ''Post not found''), d)"
    by (simp add: post_delete_def findById_absent)
  have comment_absent: "\<And>j. castObjectId commentId = Some j \<Longrightarrow>
      j \<notin> set (map comment_id (Comment_Model d)) \<Longrightarrow>
      comment_delete_with denied commentId caller d = (send 404 (msg ''Comment not found''), d)"
    by (simp add: comment_delete_with_def findById_absent)
  show ?thesis
    using post_denied comment_denied post_absent comment_absent by blast
qed

theorem delete_by_non_owner_witness:
  "post_delete post1 bob db_posted = (send 401 (msg ''User not authorized''), db_posted)
   \<and> post_getById post1 (snd (post_delete post1 bob db_posted)) = send 200 (post_json db_posted post_posted)
   \<and> comment_delete comment1 alice db_commented = (send 401 (msg ''User not authorized''), db_commented)
   \<and> post_delete post1 bob empty_db = (send 404 (msg ''Post not found''), empty_db)
   \<and> comment_delete comment1 alice empty_db = (send 404 (msg ''Comment not found''), empty_db)"
proof -
  have f: "find (\<lambda>q. post_id q = post1) (Post_Model db_posted) = Some post_posted"
    by (simp add: db_posted_eq post_posted_def)
  have o: "post_user post_posted \<noteq> bob"
    using alice_not_bob by (simp add: post_posted_def)
  have g: "find (\<lambda>q. comment_id q = comment1) (Comment_Model db_commented) = Some comment_posted"
    by (simp add: db_commented_eq comment_posted_def)
  have a: "comment_user comment_posted \<noteq> alice"
    using alice_not_bob by (simp add: comment_posted_def)
  have e: "post1 \<notin> set (map post_id (Post_Model empty_db))"
    "comment1 \<notin> set (map comment_id (Comment_Model empty_db))"
    by (simp_all add: empty_db_def)
  have c1: "post_delete post1 bob db_posted = (send 401 (msg ''User not authorized''), db_posted)
      \<and> post_getById post1 (snd (post_delete post1 bob db_posted))
          = send 200 (post_json db_posted post_posted)"
    using delete_by_non_owner[where postId = post1 and d = db_posted and caller = bob]
      cast_post1 f o by blast
  have c2: "comment_delete_with ''User not authorized'' comment1 alice db_commented
      = (send 401 (msg ''User not authorized''), db_commented)"
    using delete_by_non_owner[where commentId = comment1 and d = db_commented and caller = alice]
      cast_comment1 g a by blast
  have c3: "post_delete post1 bob empty_db = (send 404 (msg ''Post not found''), empty_db)"
    using delete_by_non_owner[where postId = post1 and d = empty_db and caller = bob]
      cast_post1 e by blast
  have c4: "comment_delete_with ''User not authorized'' comment1 alice empty_db
      = (send 404 (msg ''Comment not found''), empty_db)"
    using delete_by_non_owner[where commentId = comment1 and d = empty_db and caller = alice]
      cast_comment1 e by blast
  show ?thesis
    unfolding comment_delete_def using c1 c2 c3 c4 by blast
qed


section \<open>Post creation: results\<close>

text \<open>
  C7, as the claim states it, fails on the status: a missing or empty required field
  makes \<^verbatim>\<open>save\<close> throw inside the try block, and the catch branch answers 500.
\<close>

theorem create_missing_title_counterexample:
  "status (fst (post_create post1 0 (aapl\<lparr>b_title := None\<rparr>) alice empty_db)) = 500
   \<and> status (fst (post_create post1 0 (aapl\<lparr>b_title := Some []\<rparr>) alice empty_db)) = 500
   \<and> snd (post_create post1 0 (aapl\<lparr>b_title := None\<rparr>) alice empty_db) = empty_db"
  by (simp add: post_create_def aapl_def required_def server_error_def send_def)

text \<open>
  C7, amended. When stockSymbol, title or description is missing or empty, create answers
  500 with the validation error's message and stores nothing. When all three are present
  (and the generated id is new), create answers 200 and appends a post owned by the
  caller, with the given fields, the given tags or no tags when they are omitted, and
  no likes or comments.
\<close>

theorem create_outcomes:
  "(\<not> (required (b_stockSymbol b) \<and> required (b_title b) \<and> required (b_description b)) \<longrightarrow>
      post_create newId now b caller d = (server_error (ValidationError ''Post validation failed''), d)
      \<and> status (fst (post_create newId now b caller d)) = 500)
   \<and> (required (b_stockSymbol b) \<and> required (b_title b) \<and> required (b_description b)
        \<and> newId \<notin> set (map post_id (Post_Model d)) \<longrightarrow>
      status (fst (post_create newId now b caller d)) = 200
      \<and> (\<exists>p. Post_Model (snd (post_create newId now b caller d)) = Post_Model d @ [p]
             \<and> post_id p = newId \<and> post_user p = caller
             \<and> Some (stockSymbol p) = b_stockSymbol b \<and> Some (title p) = b_title b
             \<and> Some (description p) = b_description b
             \<and> tags p = (case b_tags b of None \<Rightarrow> [] | Some ts \<Rightarrow> ts)
             \<and> likes p = [] \<and> comments p = []))"
  by (auto simp: post_create_def server_error_def send_def required_def)

theorem create_outcomes_witness:
  "post_create post1 0 (aapl\<lparr>b_title := None\<rparr>) alice empty_db
     = (server_error (ValidationError ''Post validation failed''), empty_db)
   \<and> status (fst (post_create post1 0 aapl alice empty_db)) = 200
   \<and> Post_Model (snd (post_create post1 0 aapl alice empty_db)) = [post_posted]"
proof -
  have m: "\<not> (required (b_stockSymbol (aapl\<lparr>b_title := None\<rparr>))
     \<and> required (b_title (aapl\<lparr>b_title := None\<rparr>)) \<and> required (b_description (aapl\<lparr>b_title := None\<rparr>)))"
    by (simp add: required_def)
  have ok: "required (b_stockSymbol aapl) \<and> required (b_title aapl) \<and> required (b_description aapl)
     \<and> post1 \<notin> set (map post_id (Post_Model empty_db))"
    by (simp add: required_def aapl_def empty_db_def)
  have tg: "b_tags aapl = None" "b_stockSymbol aapl = Some ''AAPL''" "b_title aapl = Some ''t''"
    "b_description aapl = Some ''d''" by (simp_all add: aapl_def)
  have "post_create post1 0 (aapl\<lparr>b_title := None\<rparr>) alice empty_db
     = (server_error (ValidationError ''Post validation failed''), empty_db)"
    using create_outcomes[where b = "aapl\<lparr>b_title := None\<rparr>" and newId = post1 and now = 0
        and caller = alice and d = empty_db] m by blast
  moreover have "status (fst (post_create post1 0 aapl alice empty_db)) = 200"
    using create_outcomes[where b = aapl and newId = post1 and now = 0 and caller = alice
        and d = empty_db] ok by blast
  moreover have "Post_Model (snd (post_create post1 0 aapl alice empty_db)) = [post_posted]"
    using db_posted_eq by (simp add: db_posted_def)
  ultimately show ?thesis by simp
qed


section \<open>Malformed path parameters: results\<close>

text \<open>
  C10. When the path parameter is not a well-formed identity, getById, delete, like,
  unlike and getProfile answer 500. Any of them answers 404 only for a well-formed
  identity that no record of the collection has.
\<close>

theorem malformed_id_answers_500:
  "(castObjectId param = None \<longrightarrow>
       status (post_getById param d) = 500
     \<and> status (fst (post_delete param caller d)) = 500
     \<and> status (fst (post_like param caller d)) = 500
     \<and> status (fst (post_unlike param caller d)) = 500
     \<and> status (getProfile param d) = 500)
   \<and> (status (post_getById param d) = 404 \<or> status (fst (post_delete param caller d)) = 404
        \<or> status (fst (post_like param caller d)) = 404
        \<or> status (fst (post_unlike param caller d)) = 404 \<longrightarrow>
       (\<exists>i. castObjectId param = Some i \<and> i \<notin> set (map post_id (Post_Model d))))
   \<and> (status (getProfile param d) = 404 \<longrightarrow>
       (\<exists>i. castObjectId param = Some i \<and> i \<notin> set (map user_id (User_Model d))))"
proof -
  have bad: "castObjectId param = None \<longrightarrow>
       status (post_getById param d) = 500
     \<and> status (fst (post_delete param caller d)) = 500
     \<and> status (fst (post_like param caller d)) = 500
     \<and> status (fst (post_unlike param caller d)) = 500
     \<and> status (getProfile param d) = 500"
    by (simp add: post_getById_def post_delete_def post_like_def post_unlike_def getProfile_def
        findById_malformed server_error_def send_def)
  have get: "status (post_getById param d) = 404 \<Longrightarrow> findById post_id param (Post_Model d) = Inr None"
    by (auto simp: post_getById_def server_error_def send_def split: sum.splits option.splits)
  have del: "status (fst (post_delete param caller d)) = 404 \<Longrightarrow>
      findById post_id param (Post_Model d) = Inr None"
    by (auto simp: post_delete_def server_error_def send_def split: sum.splits option.splits if_splits)
  have lik: "status (fst (post_like param caller d)) = 404 \<Longrightarrow>
      findById post_id param (Post_Model d) = Inr None"
    by (auto simp: post_like_def server_error_def send_def split: sum.splits option.splits if_splits)
  have unl: "status (fst (post_unlike param caller d)) = 404 \<Longrightarrow>
      findById post_id param (Post_Model d) = Inr None"
    by (auto simp: post_unlike_def server_error_def send_def split: sum.splits option.splits if_splits)
  have prof: "status (getProfile param d) = 404 \<Longrightarrow> findById user_id param (User_Model d) = Inr None"
    by (auto simp: getProfile_def send_def split: sum.splits option.splits)
  show ?thesis
    using bad get del lik unl prof
      findById_None_iff[of post_id param "Post_Model d"]
      findById_None_iff[of user_id param "User_Model d"]
    by blast
qed

theorem malformed_id_answers_500_witness:
  "castObjectId ''42'' = None
   \<and> status (post_getById ''42'' db_posted) = 500
   \<and> status (fst (post_delete ''42'' alice db_posted)) = 500
   \<and> status (fst (post_like ''42'' alice db_posted)) = 500
   \<and> status (fst (post_unlike ''42'' alice db_posted)) = 500
   \<and> status (getProfile ''42'' db_posted) = 500
   \<and> status (post_getById post1 empty_db) = 404
   \<and> status (getProfile post1 empty_db) = 404
   \<and> (\<exists>i. castObjectId post1 = Some i \<and> i \<notin> set (map post_id (Post_Model empty_db)))
   \<and> (\<exists>i. castObjectId post1 = Some i \<and> i \<notin> set (map user_id (User_Model empty_db)))"
proof -
  have c: "castObjectId ''42'' = None" by (simp add: castObjectId_def)
  have g: "status (post_getById post1 empty_db) = 404"
    by (simp add: post_getById_def findById_def cast_post1 empty_db_def send_def)
  have p: "status (getProfile post1 empty_db) = 404"
    by (simp add: getProfile_def findById_def cast_post1 empty_db_def send_def)
  show ?thesis
    using malformed_id_answers_500[where param = "''42''" and d = db_posted and caller = alice]
      malformed_id_answers_500[where param = post1 and d = empty_db and caller = alice] c g p
    by simp
qed

section \<open>Passwords in responses: results\<close>

lemma register_with_created:
  "status (fst (register_with created hash salt newId now b d)) = 201 \<Longrightarrow>
   \<exists>u. fst (register_with created hash salt newId now b d) = created u
       \<and> User_Model (snd (register_with created hash salt newId now b d)) = User_Model d @ [u]
       \<and> Some (password u) = map_option (\<lambda>pw. hash pw salt) (r_password b)"
  by (auto simp: register_with_def Let_def send_def split: option.splits if_splits)

text \<open>
  C1. The register handler of routes/auth.js (and of src/unnamed/part_003) breaks the
  claim: whenever a registration succeeds (status 201), the body echoes the stored user
  record under \<^verbatim>\<open>registeredUser\<close>, and that record has its \<^verbatim>\<open>password\<close> field, which
  holds the stored hash of the submitted password.
\<close>

theorem register_echoes_password_hash:
  "status (fst (register hash salt newId now b d)) = 201 \<longrightarrow>
     has_field ''password'' (body (fst (register hash salt newId now b d)))
   \<and> (\<exists>u. User_Model (snd (register hash salt newId now b d)) = User_Model d @ [u]
          \<and> Some (password u) = map_option (\<lambda>pw. hash pw salt) (r_password b)
          \<and> body (fst (register hash salt newId now b d))
              = JObj [(''success'', JBool True),
                      (''message'', JStr ''User registered successfully''),
                      (''registeredUser'', user_json u)])"
proof
  assume ok: "status (fst (register hash salt newId now b d)) = 201"
  let ?created = "\<lambda>u. send 201 (JObj [(''success'', JBool True),
                                          (''message'', JStr ''User registered successfully''),
                                          (''registeredUser'', user_json u)])"
  have reg: "register hash salt newId now b d = register_with ?created hash salt newId now b d"
    by (simp add: register_def)
  from ok obtain u where u: "fst (register hash salt newId now b d) = ?created u"
      "User_Model (snd (register hash salt newId now b d)) = User_Model d @ [u]"
      "Some (password u) = map_option (\<lambda>pw. hash pw salt) (r_password b)"
    using register_with_created[of ?created hash salt newId now b d] unfolding reg by blast
  have exposed: "has_field ''password'' (body (fst (register hash salt newId now b d)))"
    by (simp add: u(1) send_def user_json_def)
  have echoed: "body (fst (register hash salt newId now b d))
              = JObj [(''success'', JBool True),
                      (''message'', JStr ''User registered successfully''),
                      (''registeredUser'', user_json u)]"
    by (simp add: u(1) send_def)
  show "has_field ''password'' (body (fst (register hash salt newId now b d)))
   \<and> (\<exists>u. User_Model (snd (register hash salt newId now b d)) = User_Model d @ [u]
          \<and> Some (password u) = map_option (\<lambda>pw. hash pw salt) (r_password b)
          \<and> body (fst (register hash salt newId now b d))
              = JObj [(''success'', JBool True),
                      (''message'', JStr ''User registered successfully''),
                      (''registeredUser'', user_json u)])"
    using exposed echoed u(2,3) by blast
qed

theorem register_echoes_password_hash_witness:
  "status (fst (register toy_hash ''salt'' alice 0 alice_form empty_db)) = 201
   \<and> has_field ''password'' (body (fst (register toy_hash ''salt'' alice 0 alice_form empty_db)))
   \<and> body (fst (register toy_hash ''salt'' alice 0 alice_form empty_db))
       = JObj [(''success'', JBool True), (''message'', JStr ''User registered successfully''),
               (''registeredUser'',
                JObj [(''username'', JStr ''alice''), (''email'', JStr ''a@x.com''),
                      (''password'', JStr ''saltsecret''), (''bio'', JStr []),
                      (''profilePicture'', JStr []), (''_id'', JStr alice),
                      (''createdAt'', JNum 0), (''__v'', JNum 0)])]"
proof -
  have r: "register toy_hash ''salt'' alice 0 alice_form empty_db
     = (send 201 (JObj [(''success'', JBool True), (''message'', JStr ''User registered successfully''),
               (''registeredUser'',
                JObj [(''username'', JStr ''alice''), (''email'', JStr ''a@x.com''),
                      (''password'', JStr ''saltsecret''), (''bio'', JStr []),
                      (''profilePicture'', JStr []), (''_id'', JStr alice),
                      (''createdAt'', JNum 0), (''__v'', JNum 0)])]),
        \<lparr>User_Model = [\<lparr>user_id = alice, username = ''alice'', email = ''a@x.com'',
             password = ''saltsecret'', bio = [], profilePicture = [], user_createdAt = 0\<rparr>],
          Post_Model = [], Comment_Model = []\<rparr>)"
    by (simp add: register_def register_with_def alice_form_def toy_hash_def empty_db_def
        required_def user_json_def Let_def)
  have s: "status (fst (register toy_hash ''salt'' alice 0 alice_form empty_db)) = 201"
    by (simp add: r send_def)
  have "has_field ''password'' (body (fst (register toy_hash ''salt'' alice 0 alice_form empty_db)))"
    using register_echoes_password_hash[of toy_hash "''salt''" alice 0 alice_form empty_db] s
    by blast
  then show ?thesis
    using s by (simp add: r send_def)
qed

text \<open>
  Every other handler, and the revision of register in src/unnamed/part_004, keeps the
  password field out of its response.
\<close>

lemma populate_user_no_password: "\<not> has_field ''password'' (populate_user d i)"
  by (simp add: populate_user_def split: option.splits)

lemma comment_json_no_password: "\<not> has_field ''password'' (comment_json d c)"
  by (simp add: comment_json_def populate_user_no_password)

lemma post_json_no_password: "\<not> has_field ''password'' (post_json d p)"
  by (simp add: post_json_def populate_comments_def populate_user_no_password
      comment_json_no_password list_ex_iff)

lemma register_rev_no_password:
  "\<not> has_field ''password'' (body (fst (register_rev hash salt newId now b d)))"
  by (simp add: register_rev_def register_with_def Let_def send_def msg_def split: option.splits)

lemma login_no_password: "\<not> has_field ''password'' (body (login compare sign b d))"
  by (simp add: login_def send_def split: option.splits)

lemma getProfile_no_password: "\<not> has_field ''password'' (body (getProfile userId d))"
  by (simp add: getProfile_def send_def msg_def split: sum.splits option.splits)

lemma updateProfile_no_password:
  "\<not> has_field ''password'' (body (fst (updateProfile b caller d)))"
  "\<not> has_field ''password'' (body (fst (updateProfile_rev b caller d)))"
  by (simp_all add: updateProfile_def updateProfile_rev_def send_def msg_def success_def
      split: sum.splits prod.splits)

lemma jsnum_json_no_field: "\<not> has_field k (jsnum_json n)"
  by (cases n) simp_all

lemma post_handlers_no_password:
  "\<not> has_field ''password'' (body (fst (post_create newId now pb caller d)))"
  "\<not> has_field ''password'' (body (post_list order q d))"
  "\<not> has_field ''password'' (body (post_list_paginated order q d))"
  "\<not> has_field ''password'' (body (post_getById postId d))"
  "\<not> has_field ''password'' (body (fst (post_delete postId caller d)))"
  "\<not> has_field ''password'' (body (fst (post_like postId caller d)))"
  "\<not> has_field ''password'' (body (fst (post_unlike postId caller d)))"
  by (simp_all add: post_create_def post_list_def post_list_paginated_def post_getById_def
      post_delete_def post_like_def post_unlike_def server_error_def send_def msg_def success_def
      selected_def formatted_def post_json_no_password jsnum_json_no_field list_ex_iff Let_def
      split: sum.splits option.splits)

lemma comment_handlers_no_password:
  "\<not> has_field ''password'' (body (fst (comment_add newId now postId ct caller d)))"
  "\<not> has_field ''password'' (body (fst (comment_add_rev newId now postId ct caller d)))"
  "\<not> has_field ''password'' (body (fst (comment_delete_with denied commentId caller d)))"
  by (simp_all add: comment_add_def comment_add_rev_def comment_delete_with_def
      server_error_def send_def msg_def success_def split: sum.splits option.splits)


section \<open>Adding a comment: results\<close>

text \<open>
  C9. The handler of routes/comments.js breaks the claim's last part: bob's comment on
  alice's post is answered with 200 and the comment is stored, but the post's comment
  list is still empty; indeed this handler never changes the post collection.
\<close>

theorem comment_add_leaves_post_comments:
  "fst (comment_add comment1 1 post1 (Some ''hi'') bob db_posted)
     = send 200 (JObj [(''success'', JBool True), (''commentId'', JStr comment1),
                       (''message'', JStr ''Comment added successfully'')])
   \<and> Comment_Model (snd (comment_add comment1 1 post1 (Some ''hi'') bob db_posted)) = [comment_posted]
   \<and> Post_Model (snd (comment_add comment1 1 post1 (Some ''hi'') bob db_posted)) = [post_posted]
   \<and> comments post_posted = []
   \<and> Post_Model (snd (comment_add newId now postId commentText caller d)) = Post_Model d"
  by (simp add: db_posted_eq comment_add_def findById_def cast_post1 post_posted_def required_def
      comment_posted_def split: option.splits)

text \<open>
  The revision of the handler (src/unnamed/part_002) does what the claim says: for a
  well-formed post id it answers 404 exactly when no post has that id, and on success
  the comment is stored with the caller as author and the post as parent, and its id is
  the last of the stored post's comment list.
\<close>

lemma comment_add_rev_outcomes:
  assumes wf: "castObjectId postId = Some i"
  shows "(status (fst (comment_add_rev newId now postId commentText caller d)) = 404
            \<longleftrightarrow> i \<notin> set (map post_id (Post_Model d)))
    \<and> (\<forall>p. find (\<lambda>q. post_id q = i) (Post_Model d) = Some p \<and> required commentText
             \<and> newId \<notin> set (map comment_id (Comment_Model d)) \<longrightarrow>
          status (fst (comment_add_rev newId now postId commentText caller d)) = 200
        \<and> Comment_Model (snd (comment_add_rev newId now postId commentText caller d))
            = Comment_Model d @ [\<lparr>comment_id = newId, comment_user = caller, comment_post = i,
                                   content = the commentText, comment_createdAt = now\<rparr>]
        \<and> findById post_id postId
             (Post_Model (snd (comment_add_rev newId now postId commentText caller d)))
            = Inr (Some (p\<lparr>comments := comments p @ [newId], post_v := post_v p + 1\<rparr>)))"
proof -
  have nf: "status (fst (comment_add_rev newId now postId commentText caller d)) = 404
            \<longleftrightarrow> i \<notin> set (map post_id (Post_Model d))"
    using wf find_None_key[of post_id i "Post_Model d"]
    by (auto simp: comment_add_rev_def findById_def send_def server_error_def split: option.splits)
  have ok: "\<And>p. find (\<lambda>q. post_id q = i) (Post_Model d) = Some p \<Longrightarrow> required commentText \<Longrightarrow>
             newId \<notin> set (map comment_id (Comment_Model d)) \<Longrightarrow>
          status (fst (comment_add_rev newId now postId commentText caller d)) = 200
        \<and> Comment_Model (snd (comment_add_rev newId now postId commentText caller d))
            = Comment_Model d @ [\<lparr>comment_id = newId, comment_user = caller, comment_post = i,
                                   content = the commentText, comment_createdAt = now\<rparr>]
        \<and> findById post_id postId
             (Post_Model (snd (comment_add_rev newId now postId commentText caller d)))
            = Inr (Some (p\<lparr>comments := comments p @ [newId], post_v := post_v p + 1\<rparr>))"
  proof -
    fix p assume f: "find (\<lambda>q. post_id q = i) (Post_Model d) = Some p"
      and c: "required commentText" and n: "newId \<notin> set (map comment_id (Comment_Model d))"
    let ?c = "\<lparr>comment_id = newId, comment_user = caller, comment_post = i,
                content = the commentText, comment_createdAt = now\<rparr>"
    let ?d = "d\<lparr>Comment_Model := Comment_Model d @ [?c]\<rparr>"
    have pid: "post_id p = i" using find_key[OF f] by simp
    have f': "find (\<lambda>q. post_id q = i) (Post_Model ?d) = Some p" using f by simp
    have saved: "findById post_id postId (Post_Model (save_post (p\<lparr>comments := comments p @ [newId]\<rparr>) ?d))
        = Inr (Some (p\<lparr>comments := comments p @ [newId], post_v := post_v p + 1\<rparr>))"
      using findById_saved[OF wf f', of "p\<lparr>comments := comments p @ [newId]\<rparr>"] by simp
    have eq: "comment_add_rev newId now postId commentText caller d
        = (send 200 (JObj [(''success'', JBool True), (''commentId'', JStr newId),
                           (''message'', JStr ''Comment added successfully'')]),
           save_post (p\<lparr>comments := comments p @ [newId]\<rparr>) ?d)"
      using wf f c n pid by (simp add: comment_add_rev_def findById_def)
    show "status (fst (comment_add_rev newId now postId commentText caller d)) = 200
        \<and> Comment_Model (snd (comment_add_rev newId now postId commentText caller d))
            = Comment_Model d @ [?c]
        \<and> findById post_id postId
             (Post_Model (snd (comment_add_rev newId now postId commentText caller d)))
            = Inr (Some (p\<lparr>comments := comments p @ [newId], post_v := post_v p + 1\<rparr>))"
      using saved by (simp add: eq send_def save_post_def)
  qed
  from nf ok show ?thesis by blast
qed


section \<open>Pagination: results\<close>

lemma ceil_div_ceiling:
  "b \<noteq> 0 \<Longrightarrow> ceil_div a b = Finite \<lceil>real a / real_of_int b\<rceil>"
proof -
  assume "b \<noteq> 0"
  have "\<lceil>real_of_int (int a) / real_of_int b\<rceil> = - (- int a div b)"
    by (rule ceiling_divide_eq_div)
  then show ?thesis using \<open>b \<noteq> 0\<close> by (simp add: ceil_div_def)
qed

lemma paged_slice:
  "0 \<le> skip \<Longrightarrow> 1 \<le> limitNumber \<Longrightarrow>
   paged limitNumber skip xs = Inr (take (nat limitNumber) (drop (nat skip) xs))"
  by (simp add: paged_def)
lemma length_fifteen: "length (filter (matches page2) (Post_Model fifteen)) = 15"
  by (simp add: fifteen_def matches_def page2_def truthy_def)

text \<open>
  The list handler of routes/posts.js answers the same whatever page and limit are, and
  its body has no pagination metadata.
\<close>

lemma post_list_ignores_page_limit:
  "post_list order (q\<lparr>q_page := a, q_limit := b\<rparr>) d = post_list order q d
   \<and> \<not> has_field ''pagination'' (body (post_list order q d))"
proof -
  have "matches (q\<lparr>q_page := a, q_limit := b\<rparr>) = matches q"
    by (rule ext) (simp add: matches_def)
  then show ?thesis
    by (simp add: post_list_def send_def selected_def list_ex_iff)
qed

text \<open>
  C8, as the claim states it for every list query, fails. The list handler of
  routes/posts.js does not paginate: asked for page 2 with limit 10 over fifteen matching
  posts, it answers with all fifteen and no pagination metadata. In the paginating
  revision a limit of 0 gives \<^verbatim>\<open>Math.ceil(15 / 0)\<close>, which is Infinity (null in JSON),
  for totalPages, and page 0 asks the store to skip -10 documents, which it refuses, so
  that the answer is 500.
\<close>

theorem unpaginated_list_counterexample:
  "post_list natural_order page2 fifteen
     = send 200 (JObj [(''posts'', JArr (map selected (Post_Model fifteen)))])
   \<and> length (map selected (Post_Model fifteen)) = 15
   \<and> post_list_paginated natural_order (page2\<lparr>q_limit := Some 0\<rparr>) fifteen
     = send 200 (JObj [(''pagination'',
                        JObj [(''currentPage'', JNum 2), (''totalPages'', JNull),
                              (''totalPosts'', JNum 15)]),
                       (''posts'', JArr (map formatted (Post_Model fifteen)))])
   \<and> status (post_list_paginated natural_order (page2\<lparr>q_page := Some 0\<rparr>) fifteen) = 500"
proof -
  have all: "filter (matches page2) (Post_Model fifteen) = Post_Model fifteen"
    "filter (matches (page2\<lparr>q_limit := Some 0\<rparr>)) (Post_Model fifteen) = Post_Model fifteen"
    "filter (matches (page2\<lparr>q_page := Some 0\<rparr>)) (Post_Model fifteen) = Post_Model fifteen"
    by (simp_all add: fifteen_def matches_def page2_def truthy_def)
  have n: "length (Post_Model fifteen) = 15" by (simp add: fifteen_def)
  have a: "post_list natural_order page2 fifteen
     = send 200 (JObj [(''posts'', JArr (map selected (Post_Model fifteen)))])"
    by (simp add: post_list_def all natural_order_def)
  have b: "post_list_paginated natural_order (page2\<lparr>q_limit := Some 0\<rparr>) fifteen
     = send 200 (JObj [(''pagination'',
                        JObj [(''currentPage'', JNum 2), (''totalPages'', JNull),
                              (''totalPosts'', JNum 15)]),
                       (''posts'', JArr (map formatted (Post_Model fifteen)))])"
    using n by (simp add: post_list_paginated_def all natural_order_def paged_def ceil_div_def
        Let_def) (simp add: page2_def)
  have c: "status (post_list_paginated natural_order (page2\<lparr>q_page := Some 0\<rparr>) fifteen) = 500"
    by (simp add: post_list_paginated_def all natural_order_def Let_def)
       (simp add: page2_def paged_def server_error_def send_def)
  from a b c n show ?thesis by simp
qed

text \<open>
  C8, amended. In the paginating revision of the list handler (src/routes/comments.js),
  with page and limit defaulting to 1 and 10 and both at least 1: the answer is 200, the
  slice skips (page - 1) * limit of the matching posts in the store's order and takes at
  most limit of them, and the metadata gives the page, the ceiling of the number of
  matching posts over limit, and the number of matching posts, counted with the same
  filter. When the store's ordering keeps the length, page 2 with limit 10 over fifteen
  matching posts gives five items and two pages.
\<close>

theorem paginated_list:
  assumes p: "pageNumber = (case q_page q of None \<Rightarrow> 1 | Some n \<Rightarrow> n)"
    and l: "limitNumber = (case q_limit q of None \<Rightarrow> 10 | Some n \<Rightarrow> n)"
    and m: "matching = filter (matches q) (Post_Model d)"
    and p1: "1 \<le> pageNumber" and l1: "1 \<le> limitNumber"
  shows "post_list_paginated order q d =
      send 200 (JObj [(''pagination'',
                        JObj [(''currentPage'', JNum pageNumber),
                              (''totalPages'', JNum \<lceil>real (length matching) / real_of_int limitNumber\<rceil>),
                              (''totalPosts'', JNum (int (length matching)))]),
                      (''posts'',
                        JArr (map formatted
                          (take (nat limitNumber)
                            (drop (nat ((pageNumber - 1) * limitNumber))
                              (order (sort_of (q_sortBy q)) matching)))))])
    \<and> ((\<forall>s xs. length (order s xs) = length xs) \<and> length matching = 15
          \<and> pageNumber = 2 \<and> limitNumber = 10 \<longrightarrow>
        length (take (nat limitNumber)
                 (drop (nat ((pageNumber - 1) * limitNumber))
                   (order (sort_of (q_sortBy q)) matching))) = 5
        \<and> \<lceil>real (length matching) / real_of_int limitNumber\<rceil> = 2)"
proof -
  have skip: "0 \<le> (pageNumber - 1) * limitNumber" using p1 l1 by simp
  have l0: "limitNumber \<noteq> 0" using l1 by simp
  have resp: "post_list_paginated order q d =
      send 200 (JObj [(''pagination'',
                        JObj [(''currentPage'', JNum pageNumber),
                              (''totalPages'', JNum \<lceil>real (length matching) / real_of_int limitNumber\<rceil>),
                              (''totalPosts'', JNum (int (length matching)))]),
                      (''posts'',
                        JArr (map formatted
                          (take (nat limitNumber)
                            (drop (nat ((pageNumber - 1) * limitNumber))
                              (order (sort_of (q_sortBy q)) matching)))))])"
    unfolding post_list_paginated_def Let_def p[symmetric] l[symmetric] m[symmetric]
    by (simp add: paged_slice[OF skip l1] ceil_div_ceiling[OF l0])
  have example: "(\<forall>s xs. length (order s xs) = length xs) \<and> length matching = 15
          \<and> pageNumber = 2 \<and> limitNumber = 10 \<longrightarrow>
        length (take (nat limitNumber)
                 (drop (nat ((pageNumber - 1) * limitNumber))
                   (order (sort_of (q_sortBy q)) matching))) = 5
        \<and> \<lceil>real (length matching) / real_of_int limitNumber\<rceil> = 2"
    by auto
  from resp example show ?thesis by blast
qed

theorem paginated_list_witness:
  "length (filter (matches page2) (Post_Model fifteen)) = 15
   \<and> post_list_paginated natural_order page2 fifteen =
      send 200 (JObj [(''pagination'',
                        JObj [(''currentPage'', JNum 2), (''totalPages'', JNum 2),
                              (''totalPosts'', JNum 15)]),
                      (''posts'',
                        JArr (map formatted (drop 10 (Post_Model fifteen))))])
   \<and> length (drop 10 (Post_Model fifteen)) = 5"
proof -
  have all: "filter (matches page2) (Post_Model fifteen) = Post_Model fifteen"
    by (simp add: fifteen_def matches_def page2_def truthy_def)
  have n: "length (Post_Model fifteen) = 15" by (simp add: fifteen_def)
  have o: "\<forall>s xs. length (natural_order s xs) = length xs" by (simp add: natural_order_def)
  have pq: "(2::int) = (case q_page page2 of None \<Rightarrow> 1 | Some n \<Rightarrow> n)"
    "(10::int) = (case q_limit page2 of None \<Rightarrow> 10 | Some n \<Rightarrow> n)"
    by (simp_all add: page2_def)
  have t: "take 10 (drop 10 (Post_Model fifteen)) = drop 10 (Post_Model fifteen)"
    using n by simp
  show ?thesis
    using paginated_list[OF pq all[symmetric], of natural_order] o n t all
    by (simp add: natural_order_def)
qed

end
